theory Spec2Isabelle
  imports Main
begin

section \<open>Strings of the host language\<close>

text \<open>
  The program is TypeScript/JavaScript. Its strings are modelled as \<^typ>\<open>string\<close>
  (lists of 8-bit characters, read as the code units below 256); the built-in string
  operations it calls are written out below for that alphabet. White space is the
  host's white space in that range (tab, line feed, vertical tab, form feed, carriage
  return, space and the no-break space), and letters change case on \<open>A\<close>..\<open>Z\<close>
  and \<open>a\<close>..\<open>z\<close> only.
\<close>

definition dquote :: char where
  "dquote = CHR 0x22"

definition is_ws :: "char \<Rightarrow> bool" where
  "is_ws c \<longleftrightarrow> c = CHR '' '' \<or> c = CHR 0x09 \<or> c = CHR 0x0A \<or> c = CHR 0x0B
     \<or> c = CHR 0x0C \<or> c = CHR 0x0D \<or> c = CHR 0xA0"

definition is_digit :: "char \<Rightarrow> bool" where
  "is_digit c \<longleftrightarrow> c \<in> set ''0123456789''"

text \<open>\<open>s.trim()\<close>\<close>

definition trim :: "string \<Rightarrow> string" where
  "trim s = rev (dropWhile is_ws (rev (dropWhile is_ws s)))"

text \<open>\<open>s.replace(/"/g, "")\<close>\<close>

definition strip_quotes :: "string \<Rightarrow> string" where
  "strip_quotes s = filter (\<lambda>c. c \<noteq> dquote) s"

text \<open>\<open>s.toLowerCase()\<close> and \<open>s.toUpperCase()\<close>\<close>

definition lower_char :: "char \<Rightarrow> char" where
  "lower_char c =
     (case map_of (zip ''ABCDEFGHIJKLMNOPQRSTUVWXYZ'' ''abcdefghijklmnopqrstuvwxyz'') c of
        Some d \<Rightarrow> d | None \<Rightarrow> c)"

definition upper_char :: "char \<Rightarrow> char" where
  "upper_char c =
     (case map_of (zip ''abcdefghijklmnopqrstuvwxyz'' ''ABCDEFGHIJKLMNOPQRSTUVWXYZ'') c of
        Some d \<Rightarrow> d | None \<Rightarrow> c)"

definition toLowerCase :: "string \<Rightarrow> string" where
  "toLowerCase s = map lower_char s"

definition toUpperCase :: "string \<Rightarrow> string" where
  "toUpperCase s = map upper_char s"

text \<open>\<open>s.startsWith(p)\<close> and \<open>s.includes(p)\<close>\<close>

fun starts_with :: "string \<Rightarrow> string \<Rightarrow> bool" where
  "starts_with s [] = True"
| "starts_with [] (p # ps) = False"
| "starts_with (c # cs) (p # ps) = (c = p \<and> starts_with cs ps)"

fun str_includes :: "string \<Rightarrow> string \<Rightarrow> bool" where
  "str_includes [] p = (p = [])"
| "str_includes (c # cs) p = (starts_with (c # cs) p \<or> str_includes cs p)"

text \<open>
  \<open>s.split(sep)\<close> for a one-character separator: the pieces between the
  separators, so that a string without separator (the empty one too) is one piece.
\<close>

fun split_acc :: "char \<Rightarrow> string \<Rightarrow> string \<Rightarrow> string list" where
  "split_acc sep cur [] = [cur]"
| "split_acc sep cur (c # cs) =
     (if c = sep then cur # split_acc sep [] cs else split_acc sep (cur @ [c]) cs)"

definition str_split :: "char \<Rightarrow> string \<Rightarrow> string list" where
  "str_split sep s = split_acc sep [] s"

text \<open>\<open>xs.findIndex(p)\<close>; the host's \<open>-1\<close> is \<open>None\<close>.\<close>

fun findIndex :: "('a \<Rightarrow> bool) \<Rightarrow> 'a list \<Rightarrow> nat option" where
  "findIndex p [] = None"
| "findIndex p (x # xs) =
     (if p x then Some 0 else map_option Suc (findIndex p xs))"

text \<open>\<open>xs[i]\<close>, which is \<open>undefined\<close> (here \<open>None\<close>) out of range.\<close>

definition item :: "'a list \<Rightarrow> nat \<Rightarrow> 'a option" where
  "item xs i = (if i < length xs then Some (xs ! i) else None)"

subsection \<open>parseInt\<close>

text \<open>
  \<open>parseInt(s)\<close> with no radix: leading white space is dropped, then an optional sign,
  then an optional \<open>0x\<close>/\<open>0X\<close> that switches to base 16, then the longest run of
  digits of the base. No digit gives \<open>NaN\<close>, here \<open>None\<close>. The result is an
  \<^typ>\<open>int\<close>: the host's numbers are doubles, exact up to \<open>2^53\<close>.
\<close>

definition digit_val :: "char \<Rightarrow> nat option" where
  "digit_val c =
     map_of (zip ''0123456789abcdef'' [0 ..< 16] @ zip ''ABCDEF'' [10 ..< 16]) c"

definition is_radix_digit :: "nat \<Rightarrow> char \<Rightarrow> bool" where
  "is_radix_digit r c = (case digit_val c of Some v \<Rightarrow> v < r | None \<Rightarrow> False)"

definition digits_value :: "nat \<Rightarrow> string \<Rightarrow> nat" where
  "digits_value r ds = foldl (\<lambda>acc c. acc * r + (case digit_val c of Some v \<Rightarrow> v | None \<Rightarrow> 0)) 0 ds"

definition parseInt :: "string \<Rightarrow> int option" where
  "parseInt s =
     (let s1 = dropWhile is_ws s;
          neg = starts_with s1 ''-'';
          s2 = (if starts_with s1 ''-'' \<or> starts_with s1 ''+'' then tl s1 else s1);
          hex = (starts_with s2 ''0x'' \<or> starts_with s2 ''0X'');
          r = (if hex then 16 else 10);
          s3 = (if hex then drop 2 s2 else s2);
          ds = takeWhile (is_radix_digit r) s3
      in if ds = [] then None
         else Some ((if neg then - 1 else 1) * int (digits_value r ds)))"

text \<open>\<open>parseInt(x)\<close> where \<open>x\<close> may be \<open>undefined\<close>: the text \<open>undefined\<close> has no digit.\<close>

definition parseInt_opt :: "string option \<Rightarrow> int option" where
  "parseInt_opt x = (case x of None \<Rightarrow> None | Some s \<Rightarrow> parseInt s)"

section \<open>Rows and the delimited-text parser\<close>

record Row =
  building :: string
  roomType :: string
  gender :: string
  bedSpaces :: int

text \<open>
  \<open>findCol\<close> of \<open>parseCSV\<close>: the keywords in their order, each tried on the
  headers from the left.
\<close>

fun findCol :: "string list \<Rightarrow> string list \<Rightarrow> nat option" where
  "findCol headers [] = None"
| "findCol headers (kw # kws) =
     (case findIndex (\<lambda>h. str_includes h kw) headers of
        Some idx \<Rightarrow> Some idx
      | None \<Rightarrow> findCol headers kws)"

definition building_kws :: "string list" where
  "building_kws = [''building'', ''location'', ''hall'', ''residence'']"

definition roomType_kws :: "string list" where
  "roomType_kws = [''room type'', ''roomtype'', ''type'', ''unit'']"

definition gender_kws :: "string list" where
  "gender_kws = [''gender'', ''sex'', ''assignment'']"

definition bed_kws :: "string list" where
  "bed_kws = [''bed'', ''spaces'', ''available'', ''count'']"

definition updated_kws :: "string list" where
  "updated_kws = [''last updated'', ''lastupdated'', ''updated'']"

text \<open>The header line: \<open>lines[0].split(",").map(h => h.trim().toLowerCase().replace(/"/g, ""))\<close>.\<close>

definition headers_of :: "string \<Rightarrow> string list" where
  "headers_of line = map (\<lambda>h. strip_quotes (toLowerCase (trim h))) (str_split (CHR '','') line)"

text \<open>
  The inner loop over the characters of a data line: a double quote toggles
  \<open>inQuotes\<close> and is dropped, a comma outside quotes ends the cell.
\<close>

fun cells_loop :: "string list \<Rightarrow> string \<Rightarrow> bool \<Rightarrow> string \<Rightarrow> string list" where
  "cells_loop cells current inQuotes [] = cells @ [trim current]"
| "cells_loop cells current inQuotes (c # cs) =
     (if c = dquote then cells_loop cells current (\<not> inQuotes) cs
      else if c = CHR '','' \<and> \<not> inQuotes then cells_loop (cells @ [trim current]) [] inQuotes cs
      else cells_loop cells (current @ [c]) inQuotes cs)"

definition cells_of :: "string \<Rightarrow> string list" where
  "cells_of line = cells_loop [] [] False line"

text \<open>\<open>cells[i]?.replace(/"/g, "").trim()\<close>, with \<open>i\<close> possibly \<open>-1\<close>.\<close>

definition clean_cell :: "string list \<Rightarrow> nat option \<Rightarrow> string option" where
  "clean_cell cells idx =
     (case idx of None \<Rightarrow> None
      | Some i \<Rightarrow> map_option (\<lambda>c. trim (strip_quotes c)) (item cells i))"

text \<open>\<open>x || d\<close> for a string \<open>x\<close> that may be \<open>undefined\<close> or empty.\<close>

definition or_else :: "string option \<Rightarrow> string \<Rightarrow> string" where
  "or_else x d = (case x of None \<Rightarrow> d | Some s \<Rightarrow> if s = [] then d else s)"

text \<open>The resolved column indices.\<close>

record cols =
  buildingIdx :: "nat option"
  roomTypeIdx :: "nat option"
  genderIdx :: "nat option"
  bedIdx :: "nat option"
  updatedIdx :: "nat option"

definition resolve :: "string list \<Rightarrow> cols" where
  "resolve headers =
     \<lparr> buildingIdx = findCol headers building_kws,
       roomTypeIdx = findCol headers roomType_kws,
       genderIdx = findCol headers gender_kws,
       bedIdx = findCol headers bed_kws,
       updatedIdx = findCol headers updated_kws \<rparr>"

text \<open>The object pushed for a kept line.\<close>

definition make_row :: "cols \<Rightarrow> string \<Rightarrow> string list \<Rightarrow> Row" where
  "make_row cs b cells =
     \<lparr> building = b,
       roomType = (if roomTypeIdx cs \<noteq> None
                   then or_else (clean_cell cells (roomTypeIdx cs)) ''Unknown''
                   else ''Unknown''),
       gender = (if genderIdx cs \<noteq> None
                 then or_else (clean_cell cells (genderIdx cs)) ''All''
                 else ''All''),
       bedSpaces = (case parseInt_opt (map_option strip_quotes
                            (case bedIdx cs of None \<Rightarrow> None | Some i \<Rightarrow> item cells i)) of
                      None \<Rightarrow> 0 | Some n \<Rightarrow> n) \<rparr>"

text \<open>\<open>!lastUpdated\<close>: \<open>null\<close> or the empty string.\<close>

definition falsy :: "string option \<Rightarrow> bool" where
  "falsy x \<longleftrightarrow> x = None \<or> x = Some []"

text \<open>
  The loop over the data lines, with its two variables \<open>rows\<close> and \<open>lastUpdated\<close>.
  The two copies of \<open>parseCSV\<close> (upload route and fetch script) have the same text
  and differ in the \<open>parseLastUpdated\<close> of their module, the parameter \<open>plu\<close>.
\<close>

fun lines_loop ::
  "(string \<Rightarrow> string option) \<Rightarrow> cols \<Rightarrow> Row list \<Rightarrow> string option \<Rightarrow> string list
     \<Rightarrow> Row list \<times> string option" where
  "lines_loop plu cs rows lastUpdated [] = (rows, lastUpdated)"
| "lines_loop plu cs rows lastUpdated (line # lines) =
     (let cells = cells_of line in
      case clean_cell cells (buildingIdx cs) of
        None \<Rightarrow> lines_loop plu cs rows lastUpdated lines
      | Some b \<Rightarrow>
          if b = [] then lines_loop plu cs rows lastUpdated lines
          else
            let lastUpdated' =
                  (case (case updatedIdx cs of None \<Rightarrow> None | Some u \<Rightarrow> item cells u) of
                     None \<Rightarrow> lastUpdated
                   | Some raw \<Rightarrow>
                       if falsy lastUpdated \<and> raw \<noteq> [] then plu raw else lastUpdated)
            in lines_loop plu cs (rows @ [make_row cs b cells]) lastUpdated' lines)"

definition parseCSV :: "(string \<Rightarrow> string option) \<Rightarrow> string \<Rightarrow> Row list \<times> string option" where
  "parseCSV plu text =
     (let lines = str_split (CHR 0x0A) (trim text) in
      if length lines < 2 then ([], None)
      else
        let cs = resolve (headers_of (hd lines)) in
        if buildingIdx cs = None \<or> bedIdx cs = None then ([], None)
        else lines_loop plu cs [] None (tl lines))"


section \<open>Timestamp resolvers\<close>

text \<open>
  The pattern of both resolvers,
  \<^verbatim>\<open>/^(\d{1,2})\/(\d{1,2})\/(\d{4})\s+(\d{1,2}):(\d{2})(.*)$/\<close>,
  as a matcher returning the six groups. Every group is followed by a character outside
  its class, so the greedy match is the only one: a run of one or two digits, a slash,
  the same again, a run of exactly four digits, a non-empty run of white space, one or
  two digits, a colon, two digits, and a rest without line terminator (\<open>.\<close> does not
  match one, and \<open>$\<close> is the end of the input).
\<close>

definition is_line_terminator :: "char \<Rightarrow> bool" where
  "is_line_terminator c \<longleftrightarrow> c = CHR 0x0A \<or> c = CHR 0x0D"

definition match_ts ::
  "string \<Rightarrow> (string \<times> string \<times> string \<times> string \<times> string \<times> string) option" where
  "match_ts s =
     (let month = takeWhile is_digit s; r1 = dropWhile is_digit s in
      if \<not> (1 \<le> length month \<and> length month \<le> 2) \<or> \<not> starts_with r1 ''/'' then None
      else
      let day = takeWhile is_digit (tl r1); r2 = dropWhile is_digit (tl r1) in
      if \<not> (1 \<le> length day \<and> length day \<le> 2) \<or> \<not> starts_with r2 ''/'' then None
      else
      let year = takeWhile is_digit (tl r2); r3 = dropWhile is_digit (tl r2) in
      if length year \<noteq> 4 then None
      else
      let sp = takeWhile is_ws r3; r4 = dropWhile is_ws r3 in
      if sp = [] then None
      else
      let hour = takeWhile is_digit r4; r5 = dropWhile is_digit r4 in
      if \<not> (1 \<le> length hour \<and> length hour \<le> 2) \<or> \<not> starts_with r5 '':'' then None
      else
      let minute = take 2 (tl r5); rest = drop 2 (tl r5) in
      if length minute \<noteq> 2 \<or> \<not> list_all is_digit minute \<or> list_ex is_line_terminator rest
      then None
      else Some (month, day, year, hour, minute, rest))"

text \<open>
  \<open>parseInt\<close> of a matched group. The groups are runs of decimal digits, on which
  \<open>parseInt\<close> is never \<open>NaN\<close>.
\<close>

definition group_int :: "string \<Rightarrow> int" where
  "group_int g = (case parseInt g of Some n \<Rightarrow> n | None \<Rightarrow> 0)"

text \<open>The 24-hour value \<open>h\<close> computed by both resolvers from the hour and the suffix.\<close>

definition hour24 :: "string \<Rightarrow> string \<Rightarrow> int" where
  "hour24 hour rest =
     (let suffix = toUpperCase (trim rest);
          h = group_int hour;
          h = (if str_includes suffix ''PM'' \<and> h < 12 then h + 12 else h);
          h = (if str_includes suffix ''AM'' \<and> h = 12 then 0 else h)
      in h)"

subsection \<open>Numbers as text\<close>

text \<open>\<open>String(n)\<close> for a natural number and \<open>s.padStart(k, "0")\<close>.\<close>

definition digit_char :: "nat \<Rightarrow> char" where
  "digit_char n = ''0123456789'' ! (n mod 10)"

function String_nat :: "nat \<Rightarrow> string" where
  "String_nat n = (if n < 10 then [digit_char n] else String_nat (n div 10) @ [digit_char n])"
  by pat_completeness auto
termination
  by (relation "measure id") auto

declare String_nat.simps [simp del]

definition padStart :: "nat \<Rightarrow> string \<Rightarrow> string" where
  "padStart k s = replicate (k - length s) (CHR ''0'') @ s"

subsection \<open>The fetch script\<close>

text \<open>
  \<open>parseLastUpdated\<close> of \<open>scripts/fetch-snapshot.mjs\<close>: the wall-clock fields are
  copied into the text and the offset is chosen by the fixed rule on month and day.
\<close>

definition isPDT :: "int \<Rightarrow> int \<Rightarrow> bool" where
  "isPDT m d \<longleftrightarrow> m > 3 \<or> (m = 3 \<and> d \<ge> 8)"

definition parseLastUpdated_fetch :: "string \<Rightarrow> string option" where
  "parseLastUpdated_fetch raw =
     (if raw = [] then None
      else
        case match_ts (trim (strip_quotes raw)) of
          None \<Rightarrow> None
        | Some (month, day, year, hour, minute, rest) \<Rightarrow>
            let h = hour24 hour rest;
                mm = padStart 2 (String_nat (nat (group_int month)));
                dd = padStart 2 (String_nat (nat (group_int day)));
                hh = padStart 2 (String_nat (nat h));
                mi = padStart 2 (String_nat (nat (group_int minute)));
                m = group_int month;
                d = group_int day;
                offset = (if isPDT m d then ''-07:00'' else ''-08:00'')
            in Some (year @ ''-'' @ mm @ ''-'' @ dd @ ''T'' @ hh @ '':'' @ mi @ '':00'' @ offset))"

subsection \<open>The host's Date\<close>

text \<open>
  The upload route builds a \<open>Date\<close> from local-time fields and prints it with
  \<open>toISOString\<close>. Both are the host's: \<open>new Date(y, m, d, h, mi)\<close> is the time value
  \<open>MakeDate(MakeDay(y, m, d), MakeTime(h, mi, 0, 0))\<close> read as local time, in
  milliseconds since the epoch, and \<open>NaN\<close> (here \<open>None\<close>) beyond \<open>8.64e15\<close>. The
  host's time zone is the parameter \<open>tz\<close>, its offset from UTC in minutes (\<open>0\<close> on a
  UTC host, \<open>-480\<close> for UTC-08:00). Days are counted in the proleptic Gregorian
  calendar: \<open>days_from_civil\<close> is the day number of a date and \<open>civil_from_days\<close>
  the date of a day number, computed in steps from the 400-year era, the day and year
  of the era, and the day of the year counted from March.
\<close>

definition days_from_civil :: "int \<Rightarrow> int \<Rightarrow> int \<Rightarrow> int" where
  "days_from_civil y m d =
     (let y' = (if m \<le> 2 then y - 1 else y);
          era = y' div 400;
          yoe = y' - era * 400;
          doy = (153 * (if m > 2 then m - 3 else m + 9) + 2) div 5 + d - 1;
          doe = yoe * 365 + yoe div 4 - yoe div 100 + doy
      in era * 146097 + doe - 719468)"

definition civil_of_month :: "int \<Rightarrow> int \<Rightarrow> int \<Rightarrow> int \<times> int \<times> int" where
  "civil_of_month y d m = ((if m \<le> 2 then y + 1 else y), m, d)"

definition civil_of_mp :: "int \<Rightarrow> int \<Rightarrow> int \<Rightarrow> int \<times> int \<times> int" where
  "civil_of_mp y doy mp =
     civil_of_month y (doy - (153 * mp + 2) div 5 + 1) (if mp < 10 then mp + 3 else mp - 9)"

definition civil_of_yoe :: "int \<Rightarrow> int \<Rightarrow> int \<Rightarrow> int \<times> int \<times> int" where
  "civil_of_yoe era doe yoe =
     civil_of_mp (yoe + era * 400) (doe - (365 * yoe + yoe div 4 - yoe div 100))
       ((5 * (doe - (365 * yoe + yoe div 4 - yoe div 100)) + 2) div 153)"

definition civil_of_doe :: "int \<Rightarrow> int \<Rightarrow> int \<times> int \<times> int" where
  "civil_of_doe era doe =
     civil_of_yoe era doe ((doe - doe div 1460 + doe div 36524 - doe div 146096) div 365)"

definition civil_from_days :: "int \<Rightarrow> int \<times> int \<times> int" where
  "civil_from_days z = civil_of_doe ((z + 719468) div 146097) ((z + 719468) mod 146097)"

definition MakeDay :: "int \<Rightarrow> int \<Rightarrow> int \<Rightarrow> int" where
  "MakeDay year month date =
     days_from_civil (year + month div 12) (month mod 12 + 1) 1 + date - 1"

definition new_Date :: "int \<Rightarrow> int \<Rightarrow> int \<Rightarrow> int \<Rightarrow> int \<Rightarrow> int \<Rightarrow> int option" where
  "new_Date tz year month date hours minutes =
     (let yr = (if 0 \<le> year \<and> year \<le> 99 then 1900 + year else year);
          t = MakeDay yr month date * 86400000 + hours * 3600000 + minutes * 60000;
          u = t - tz * 60000
      in if \<bar>u\<bar> > 8640000000000000 then None else Some u)"

definition iso_year :: "int \<Rightarrow> string" where
  "iso_year y =
     (if 0 \<le> y \<and> y \<le> 9999 then padStart 4 (String_nat (nat y))
      else (if y < 0 then ''-'' else ''+'') @ padStart 6 (String_nat (nat \<bar>y\<bar>)))"

definition pad_int :: "nat \<Rightarrow> int \<Rightarrow> string" where
  "pad_int k n = padStart k (String_nat (nat n))"

fun iso_date :: "int \<times> int \<times> int \<Rightarrow> string" where
  "iso_date (y, m, d) = iso_year y @ ''-'' @ pad_int 2 m @ ''-'' @ pad_int 2 d"

definition iso_time :: "int \<Rightarrow> string" where
  "iso_time t =
     pad_int 2 (t div 3600000) @ '':'' @ pad_int 2 (t div 60000 mod 60) @ '':''
     @ pad_int 2 (t div 1000 mod 60) @ ''.'' @ pad_int 3 (t mod 1000)"

definition toISOString :: "int \<Rightarrow> string" where
  "toISOString u =
     iso_date (civil_from_days (u div 86400000)) @ ''T'' @ iso_time (u mod 86400000) @ ''Z''"

subsection \<open>The upload route\<close>

text \<open>
  \<open>parseLastUpdated\<close> of \<open>app/api/upload/route.ts\<close>: the same match and hour, then
  \<open>new Date(year, month - 1, day, h, minute)\<close> in the host's zone, printed in UTC.
\<close>

definition parseLastUpdated_upload :: "int \<Rightarrow> string \<Rightarrow> string option" where
  "parseLastUpdated_upload tz raw =
     (if raw = [] then None
      else
        case match_ts (trim (strip_quotes raw)) of
          None \<Rightarrow> None
        | Some (month, day, year, hour, minute, rest) \<Rightarrow>
            let h = hour24 hour rest in
            case new_Date tz (group_int year) (group_int month - 1) (group_int day) h
                   (group_int minute) of
              None \<Rightarrow> None
            | Some d \<Rightarrow> Some (toISOString d))"

text \<open>The two copies of \<open>parseCSV\<close>, each with the resolver of its module.\<close>

definition parseCSV_upload :: "int \<Rightarrow> string \<Rightarrow> Row list \<times> string option" where
  "parseCSV_upload tz = parseCSV (parseLastUpdated_upload tz)"

definition parseCSV_fetch :: "string \<Rightarrow> Row list \<times> string option" where
  "parseCSV_fetch = parseCSV parseLastUpdated_fetch"


section \<open>The snapshot store and the two ingestion entry points\<close>

record Snapshot =
  timestamp :: string
  rows :: "Row list"

record HousingData =
  snapshots :: "Snapshot list"
  lastUpdated :: "string option"

text \<open>
  The persisted state is the file \<open>housing.json\<close>: absent, unreadable as JSON, or
  holding a document of the shape of \<open>HousingData\<close>, which is read back as it was
  written. Both entry points start from the empty history in the first two cases.
  Writing the file is taken to succeed.
\<close>

datatype store_file = Missing | Corrupt | Stored HousingData

definition empty_history :: HousingData where
  "empty_history = \<lparr> snapshots = [], lastUpdated = None \<rparr>"

definition load_existing :: "store_file \<Rightarrow> HousingData" where
  "load_existing f = (case f of Stored d \<Rightarrow> d | _ \<Rightarrow> empty_history)"

text \<open>\<open>existing.snapshots.push(snapshot); existing.lastUpdated = snapshotTime\<close>\<close>

definition push_snapshot :: "HousingData \<Rightarrow> string \<Rightarrow> Row list \<Rightarrow> HousingData" where
  "push_snapshot existing snapshotTime parsed =
     existing \<lparr> snapshots := snapshots existing @ [\<lparr> timestamp = snapshotTime, rows = parsed \<rparr>],
                lastUpdated := Some snapshotTime \<rparr>"

subsection \<open>Upload route\<close>

text \<open>
  \<open>POST\<close> of \<open>app/api/upload/route.ts\<close>. Its inputs are the host's time zone, the
  \<open>ADMIN_PASSWORD\<close> of the environment, the \<open>x-admin-password\<close> header, the text of
  the uploaded file (\<open>None\<close> when the form has none), the wall clock
  \<open>new Date().toISOString()\<close> and the file of the store; it returns the response and
  the file after the call.
\<close>

datatype response =
  Error_response nat string
| Success_response nat nat

definition no_rows_message :: string where
  "no_rows_message = ''Could not parse any rows. Make sure the CSV has columns for building and bed spaces (available/count).''"

definition POST ::
  "int \<Rightarrow> string option \<Rightarrow> string option \<Rightarrow> string option \<Rightarrow> string \<Rightarrow> store_file
     \<Rightarrow> response \<times> store_file" where
  "POST tz correctPassword password file now store =
     (if falsy correctPassword
      then (Error_response 500 ''ADMIN_PASSWORD environment variable not set on server.'', store)
      else if password \<noteq> correctPassword then (Error_response 401 ''Invalid password.'', store)
      else
        case file of
          None \<Rightarrow> (Error_response 400 ''No file provided.'', store)
        | Some text \<Rightarrow>
            let (parsed, csvTimestamp) = parseCSV_upload tz text in
            if length parsed = 0 then (Error_response 400 no_rows_message, store)
            else
              let existing = load_existing store;
                  snapshotTime = or_else csvTimestamp now;
                  existing = push_snapshot existing snapshotTime parsed
              in (Success_response (length parsed) (length (snapshots existing)),
                  Stored existing))"

subsection \<open>Fetch script\<close>

text \<open>
  \<open>fetchCSV\<close> tries its URLs in order; \<open>responses\<close> holds, for each, the body when
  the request succeeded with an ok status. The first body with a comma and more than
  two lines is returned; with none the script throws, here \<open>None\<close>.
\<close>

fun fetchCSV :: "string option list \<Rightarrow> string option" where
  "fetchCSV [] = None"
| "fetchCSV (r # rs) =
     (case r of
        None \<Rightarrow> fetchCSV rs
      | Some text \<Rightarrow>
          if str_includes text '','' \<and> length (str_split (CHR 0x0A) text) > 2 then Some text
          else fetchCSV rs)"

text \<open>
  \<open>main\<close> of \<open>scripts/fetch-snapshot.mjs\<close>: how the process ends and the file
  after it. \<open>Exit 1\<close> and \<open>Exit 0\<close> are the two \<open>process.exit\<close> calls; \<open>Saved n\<close> is
  the normal end after writing \<open>n\<close> snapshots.
\<close>

datatype outcome = Exit nat | Saved nat

definition main :: "string option list \<Rightarrow> string \<Rightarrow> store_file \<Rightarrow> outcome \<times> store_file" where
  "main responses now store =
     (case fetchCSV responses of
        None \<Rightarrow> (Exit 1, store)
      | Some csvText \<Rightarrow>
          let (rows, csvTimestamp) = parseCSV_fetch csvText in
          if length rows = 0 then (Exit 1, store)
          else
            let existing = load_existing store;
                snapshotTime = or_else csvTimestamp now
            in if list_ex (\<lambda>s. timestamp s = snapshotTime) (snapshots existing)
               then (Exit 0, store)
               else
                 let existing = push_snapshot existing snapshotTime rows
                 in (Saved (length (snapshots existing)), Stored existing))"

section \<open>Notions used to state the properties of the parser\<close>

text \<open>A text file given by its lines, each ended by a line feed.\<close>

definition unlines :: "string list \<Rightarrow> string" where
  "unlines ls = concat (map (\<lambda>l. l @ [CHR 0x0A]) ls)"

text \<open>
  What \<open>parseCSV\<close> reads from a text: the columns resolved from its first line and
  its data lines.
\<close>

definition header_cols :: "string \<Rightarrow> cols" where
  "header_cols text = resolve (headers_of (hd (str_split (CHR 0x0A) (trim text))))"

definition data_lines :: "string \<Rightarrow> string list" where
  "data_lines text = tl (str_split (CHR 0x0A) (trim text))"

text \<open>
  The cell of a line in a column, without quotes and trimmed; empty when the column
  is unresolved or the line has no such cell.
\<close>

definition cell_text :: "nat option \<Rightarrow> string \<Rightarrow> string" where
  "cell_text idx line = or_else (clean_cell (cells_of line) idx) []"

definition has_building :: "cols \<Rightarrow> string \<Rightarrow> bool" where
  "has_building cs line \<longleftrightarrow> cell_text (buildingIdx cs) line \<noteq> []"

definition row_of_line :: "cols \<Rightarrow> string \<Rightarrow> Row" where
  "row_of_line cs line = make_row cs (cell_text (buildingIdx cs) line) (cells_of line)"

text \<open>A line is blank when it holds white space only.\<close>

definition blank_line :: "string \<Rightarrow> bool" where
  "blank_line line \<longleftrightarrow> trim line = []"

definition nonblank_data_lines :: "string \<Rightarrow> string list" where
  "nonblank_data_lines text = filter (\<lambda>l. \<not> blank_line l) (data_lines text)"

text \<open>The bed-count cell of a line, if the line has one, and whether it carries a minus sign.\<close>

definition bed_cell :: "cols \<Rightarrow> string \<Rightarrow> string option" where
  "bed_cell cs line =
     map_option strip_quotes (case bedIdx cs of None \<Rightarrow> None | Some i \<Rightarrow> item (cells_of line) i)"

definition minus_signed :: "string option \<Rightarrow> bool" where
  "minus_signed x = (case x of None \<Rightarrow> False | Some s \<Rightarrow> starts_with (dropWhile is_ws s) ''-'')"

text \<open>
  A structural failure of a text: fewer than two lines, or no building column, or no
  bed-count column.
\<close>

definition structural_failure :: "string \<Rightarrow> bool" where
  "structural_failure text \<longleftrightarrow>
     length (str_split (CHR 0x0A) (trim text)) < 2
     \<or> buildingIdx (header_cols text) = None \<or> bedIdx (header_cols text) = None"

text \<open>
  The updated-at cells that the loop hands to the resolver: those of the lines with a
  building, in file order, that are not empty. \<open>first_parsed\<close> is the first of them
  that the resolver \<open>plu\<close> parses.
\<close>

definition updated_cell :: "cols \<Rightarrow> string \<Rightarrow> string option" where
  "updated_cell cs line = (case updatedIdx cs of None \<Rightarrow> None | Some u \<Rightarrow> item (cells_of line) u)"

definition updated_raws :: "cols \<Rightarrow> string list \<Rightarrow> string list" where
  "updated_raws cs lines =
     filter (\<lambda>raw. raw \<noteq> []) (List.map_filter (updated_cell cs) (filter (has_building cs) lines))"

fun first_parsed :: "(string \<Rightarrow> string option) \<Rightarrow> string list \<Rightarrow> string option" where
  "first_parsed plu [] = None"
| "first_parsed plu (raw # raws) =
     (if falsy (plu raw) then first_parsed plu raws else plu raw)"

text \<open>Example inputs.\<close>

definition blank_building_example :: string where
  "blank_building_example = unlines [''Building,Gender,Beds'', '',Female,10'', ''Hedrick,Male,5'']"

definition negative_beds_example :: string where
  "negative_beds_example = unlines [''Building,Beds'', ''Hedrick,-5'']"

definition updated_example :: string where
  "updated_example =
     unlines [''Building,Gender,Beds,Last Updated'',
              ''Hedrick,Female,10,3/7/2026 11:00 PM'',
              ''Hedrick,Male,5,3/8/2026 12:00 AM'']"

definition no_building_example :: string where
  "no_building_example = unlines [''Name,Beds'', ''Hedrick,5'', ''Rieber,7'']"

definition wall_clock :: string where
  "wall_clock = ''2026-03-09T18:00:00.000Z''"

definition example_rows :: "Row list" where
  "example_rows =
     [\<lparr> building = ''Hedrick'', roomType = ''Unknown'', gender = ''Female'', bedSpaces = 10 \<rparr>,
      \<lparr> building = ''Hedrick'', roomType = ''Unknown'', gender = ''Male'', bedSpaces = 5 \<rparr>]"

text \<open>The store after \<open>updated_example\<close> has been uploaded once on a UTC host.\<close>

definition uploaded_once :: HousingData where
  "uploaded_once =
     \<lparr> snapshots = [\<lparr> timestamp = ''2026-03-07T23:00:00.000Z'', rows = example_rows \<rparr>],
       lastUpdated = Some ''2026-03-07T23:00:00.000Z'' \<rparr>"

text \<open>The store after the fetch script has saved \<open>updated_example\<close> once.\<close>

definition fetched_once :: HousingData where
  "fetched_once =
     \<lparr> snapshots = [\<lparr> timestamp = ''2026-03-07T23:00:00-08:00'', rows = example_rows \<rparr>],
       lastUpdated = Some ''2026-03-07T23:00:00-08:00'' \<rparr>"

section \<open>Reading a stored timestamp\<close>

text \<open>
  \<open>new Date(ts).getTime()\<close> of the host, for the two shapes of timestamp that ingestion
  writes: \<open>YYYY-MM-DDTHH:MM:SS\<close>, an optional \<open>.sss\<close>, and then \<open>Z\<close> or an offset
  \<open>+HH:MM\<close>/\<open>-HH:MM\<close>. The result is in milliseconds since the epoch; \<open>None\<close> is
  \<open>NaN\<close>. The hour \<open>24\<close> is read with minute and second \<open>0\<close> only, as the
  midnight that ends the day.
\<close>

definition num_field :: "string \<Rightarrow> int option" where
  "num_field s = (if s \<noteq> [] \<and> list_all is_digit s then Some (int (digits_value 10 s)) else None)"

definition zone_minutes :: "string \<Rightarrow> int option" where
  "zone_minutes z =
     (if z = ''Z'' then Some 0
      else if length z = 6 \<and> (starts_with z ''+'' \<or> starts_with z ''-'') \<and> z ! 3 = CHR '':''
      then (case (num_field (take 2 (drop 1 z)), num_field (drop 4 z)) of
              (Some h, Some m) \<Rightarrow> Some ((if starts_with z ''-'' then - 1 else 1) * (h * 60 + m))
            | _ \<Rightarrow> None)
      else None)"

definition time_value :: "int \<Rightarrow> int \<Rightarrow> int \<Rightarrow> int \<Rightarrow> int \<Rightarrow> int \<Rightarrow> int \<Rightarrow> int \<Rightarrow> int option" where
  "time_value y mo d h mi sec ms off =
     (if 1 \<le> mo \<and> mo \<le> 12 \<and> 1 \<le> d \<and> d \<le> 31 \<and> mi \<le> 59 \<and> sec \<le> 59
         \<and> (h \<le> 23 \<or> (h = 24 \<and> mi = 0 \<and> sec = 0 \<and> ms = 0))
      then Some (days_from_civil y mo d * 86400000 + h * 3600000 + mi * 60000 + sec * 1000 + ms
                 - off * 60000)
      else None)"

definition iso_instant :: "string \<Rightarrow> int option" where
  "iso_instant s =
     (if 20 \<le> length s \<and> s ! 4 = CHR ''-'' \<and> s ! 7 = CHR ''-'' \<and> s ! 10 = CHR ''T''
         \<and> s ! 13 = CHR '':'' \<and> s ! 16 = CHR '':''
      then
        case (num_field (take 4 s), num_field (take 2 (drop 5 s)), num_field (take 2 (drop 8 s)),
              num_field (take 2 (drop 11 s)), num_field (take 2 (drop 14 s)),
              num_field (take 2 (drop 17 s)),
              (if starts_with (drop 19 s) ''.'' then num_field (take 3 (drop 20 s)) else Some 0),
              zone_minutes (if starts_with (drop 19 s) ''.'' then drop 23 s else drop 19 s)) of
          (Some y, Some mo, Some d, Some h, Some mi, Some sec, Some ms, Some off) \<Rightarrow>
            time_value y mo d h mi sec ms off
        | _ \<Rightarrow> None
      else None)"

section \<open>The aggregation of the page\<close>

text \<open>
  \<open>latest\<close> and \<open>prev\<close> of \<open>Home\<close> in \<open>app/page.tsx\<close>: the rows of the last
  and of the last but one element of \<open>data.snapshots\<close>.
\<close>

definition latest :: "HousingData \<Rightarrow> Row list" where
  "latest data =
     (if length (snapshots data) \<noteq> 0 then rows (snapshots data ! (length (snapshots data) - 1))
      else [])"

definition prev :: "HousingData \<Rightarrow> Row list option" where
  "prev data =
     (if length (snapshots data) > 1
      then Some (rows (snapshots data ! (length (snapshots data) - 2)))
      else None)"

text \<open>The four filters of the page: \<open>gender\<close>, \<open>building\<close>, \<open>roomType\<close> and \<open>q\<close>.\<close>

record filters =
  sel_gender :: string
  sel_building :: string
  sel_roomType :: string
  sel_q :: string

definition apply_filters :: "filters \<Rightarrow> Row list \<Rightarrow> Row list" where
  "apply_filters fl f0 =
     (let f1 = (if sel_gender fl \<noteq> ''All'' then filter (\<lambda>r. gender r = sel_gender fl) f0 else f0);
          f2 = (if sel_building fl \<noteq> ''All'' then filter (\<lambda>r. building r = sel_building fl) f1
                else f1);
          f3 = (if sel_roomType fl \<noteq> ''All'' then filter (\<lambda>r. roomType r = sel_roomType fl) f2
                else f2)
      in if sel_q fl \<noteq> []
         then filter (\<lambda>r. str_includes (toLowerCase (building r)) (toLowerCase (sel_q fl))
                          \<or> str_includes (toLowerCase (roomType r)) (toLowerCase (sel_q fl))) f3
         else f3)"

text \<open>
  The group key \<open>JSON.stringify({ building: r.building, roomType: r.roomType })\<close>, with
  the escapes of JSON text: the double quote, the backslash and the control characters.
\<close>

definition backslash :: char where
  "backslash = CHR 0x5C"

definition hex_char :: "nat \<Rightarrow> char" where
  "hex_char n = ''0123456789abcdef'' ! (n mod 16)"

definition json_escape :: "char \<Rightarrow> string" where
  "json_escape c =
     (if c = dquote then [backslash, dquote]
      else if c = backslash then [backslash, backslash]
      else if c = CHR 0x08 then [backslash, CHR ''b'']
      else if c = CHR 0x0C then [backslash, CHR ''f'']
      else if c = CHR 0x0A then [backslash, CHR ''n'']
      else if c = CHR 0x0D then [backslash, CHR ''r'']
      else if c = CHR 0x09 then [backslash, CHR ''t'']
      else if (of_char c :: nat) < 32
      then [backslash] @ ''u00'' @ [hex_char (of_char c div 16), hex_char (of_char c)]
      else [c])"

definition json_string :: "string \<Rightarrow> string" where
  "json_string s = [dquote] @ concat (map json_escape s) @ [dquote]"

definition group_key :: "Row \<Rightarrow> string" where
  "group_key r =
     ''{'' @ json_string ''building'' @ '':'' @ json_string (building r) @ '',''
     @ json_string ''roomType'' @ '':'' @ json_string (roomType r) @ ''}''"

text \<open>
  \<open>prevTotals\<close>: \<open>null\<close> without a previous snapshot, else the object that maps each
  key of the filtered previous rows to the sum of their bed spaces.
\<close>

definition add_total :: "(string \<rightharpoonup> int) \<Rightarrow> Row \<Rightarrow> (string \<rightharpoonup> int)" where
  "add_total g r =
     g(group_key r \<mapsto> (case g (group_key r) of None \<Rightarrow> 0 | Some n \<Rightarrow> n) + bedSpaces r)"

definition prevTotals :: "filters \<Rightarrow> HousingData \<Rightarrow> (string \<rightharpoonup> int) option" where
  "prevTotals fl data =
     (case prev data of
        None \<Rightarrow> None
      | Some p \<Rightarrow> Some (foldl add_total Map.empty (apply_filters fl p)))"

text \<open>
  The rows of the table. The object \<open>g\<close> of \<open>table\<close> is a list in insertion order,
  which is the order of \<open>Object.values(g)\<close> for these keys; \<open>byGender\<close> is a list of
  pairs in the same way.
\<close>

record GroupedRow =
  key :: string
  g_building :: string
  g_roomType :: string
  totalBeds :: int
  byGender :: "(string \<times> int) list"
  change :: "int option"

fun add_gender :: "(string \<times> int) list \<Rightarrow> string \<Rightarrow> int \<Rightarrow> (string \<times> int) list" where
  "add_gender [] k v = [(k, v)]"
| "add_gender ((k', n) # xs) k v =
     (if k' = k then (k', n + v) # xs else (k', n) # add_gender xs k v)"

fun add_row :: "GroupedRow list \<Rightarrow> Row \<Rightarrow> GroupedRow list" where
  "add_row [] r =
     [\<lparr> key = group_key r, g_building = building r, g_roomType = roomType r,
        totalBeds = 0 + bedSpaces r, byGender = add_gender [] (gender r) (bedSpaces r),
        change = None \<rparr>]"
| "add_row (g # gs) r =
     (if key g = group_key r
      then g \<lparr> totalBeds := totalBeds g + bedSpaces r,
               byGender := add_gender (byGender g) (gender r) (bedSpaces r) \<rparr> # gs
      else g # add_row gs r)"

definition set_change :: "(string \<rightharpoonup> int) option \<Rightarrow> GroupedRow \<Rightarrow> GroupedRow" where
  "set_change pt row =
     (case pt of
        None \<Rightarrow> row
      | Some totals \<Rightarrow>
          (case totals (key row) of
             None \<Rightarrow> row
           | Some p \<Rightarrow> row \<lparr> change := Some (totalBeds row - p) \<rparr>))"

text \<open>
  The sort of the table. \<open>arr.sort(cmp)\<close> is stable; it is an insertion sort here. The
  comparison of two texts, \<open>x.localeCompare(y)\<close>, is the host's and is the parameter
  \<open>lc\<close>.
\<close>

datatype sort_field = By_building | By_roomType | By_bedSpaces | By_change

datatype sort_dir = Asc | Desc

definition compare_rows ::
  "(string \<Rightarrow> string \<Rightarrow> int) \<Rightarrow> sort_field \<Rightarrow> sort_dir \<Rightarrow> GroupedRow \<Rightarrow> GroupedRow \<Rightarrow> int" where
  "compare_rows lc sortF sortD a b =
     (if sortF = By_bedSpaces
      then (if sortD = Asc then totalBeds a - totalBeds b else totalBeds b - totalBeds a)
      else if sortF = By_change
      then (let ac = (case change a of None \<Rightarrow> 0 | Some c \<Rightarrow> c);
                bc = (case change b of None \<Rightarrow> 0 | Some c \<Rightarrow> c)
            in if sortD = Asc then ac - bc else bc - ac)
      else (let x = (if sortF = By_building then g_building a else g_roomType a);
                y = (if sortF = By_building then g_building b else g_roomType b)
            in if sortD = Asc then lc x y else lc y x))"

fun insert_sorted :: "('a \<Rightarrow> 'a \<Rightarrow> int) \<Rightarrow> 'a \<Rightarrow> 'a list \<Rightarrow> 'a list" where
  "insert_sorted cmp x [] = [x]"
| "insert_sorted cmp x (y # ys) =
     (if cmp x y \<le> 0 then x # y # ys else y # insert_sorted cmp x ys)"

definition sort_with :: "('a \<Rightarrow> 'a \<Rightarrow> int) \<Rightarrow> 'a list \<Rightarrow> 'a list" where
  "sort_with cmp xs = foldr (insert_sorted cmp) xs []"

definition table ::
  "(string \<Rightarrow> string \<Rightarrow> int) \<Rightarrow> sort_field \<Rightarrow> sort_dir \<Rightarrow> filters \<Rightarrow> HousingData
     \<Rightarrow> GroupedRow list" where
  "table lc sortF sortD fl data =
     sort_with (compare_rows lc sortF sortD)
       (map (set_change (prevTotals fl data))
          (foldl add_row [] (apply_filters fl (latest data))))"

text \<open>
  \<open>chartData\<close> of \<open>TrendModal\<close>: one point for each snapshot, with the total of
  the rows of the building and room type (and of the gender \<open>gf\<close> unless it is
  \<open>All\<close>), sorted by the time value of the timestamps. A difference with a \<open>NaN\<close>
  in it compares as equal. The sums by gender are kept in a list of their own: the
  genders are taken to differ from the two field names \<open>timestamp\<close> and \<open>total\<close>
  of a point.
\<close>

record point =
  pt_timestamp :: string
  total :: int
  per_gender :: "(string \<times> int) list"

definition add_point :: "string \<Rightarrow> point \<Rightarrow> Row \<Rightarrow> point" where
  "add_point gf pt r =
     (if gf = ''All'' \<or> gender r = gf
      then pt \<lparr> total := total pt + bedSpaces r,
                per_gender := add_gender (per_gender pt) (gender r) (bedSpaces r) \<rparr>
      else pt)"

definition compare_time :: "point \<Rightarrow> point \<Rightarrow> int" where
  "compare_time a b =
     (case (iso_instant (pt_timestamp a), iso_instant (pt_timestamp b)) of
        (Some x, Some y) \<Rightarrow> x - y
      | _ \<Rightarrow> 0)"

definition chartData :: "Snapshot list \<Rightarrow> string \<Rightarrow> string \<Rightarrow> string \<Rightarrow> point list" where
  "chartData snaps b rt gf =
     sort_with compare_time
       (map (\<lambda>sn. foldl (add_point gf)
                     \<lparr> pt_timestamp = timestamp sn, total = 0, per_gender = [] \<rparr>
                     (filter (\<lambda>r. building r = b \<and> roomType r = rt) (rows sn)))
          snaps)"

section \<open>Notions used to state the properties of the aggregation\<close>

text \<open>
  The snapshots in chronological order, for a reading \<open>tm\<close> of timestamps as numbers,
  and the rows of the chronologically last and last but one.
\<close>

definition chronological :: "(string \<Rightarrow> int) \<Rightarrow> Snapshot list \<Rightarrow> Snapshot list" where
  "chronological tm snaps = sort_key (\<lambda>s. tm (timestamp s)) snaps"

definition chron_latest :: "(string \<Rightarrow> int) \<Rightarrow> HousingData \<Rightarrow> Row list" where
  "chron_latest tm data =
     (case rev (chronological tm (snapshots data)) of [] \<Rightarrow> [] | s # _ \<Rightarrow> rows s)"

definition chron_previous :: "(string \<Rightarrow> int) \<Rightarrow> HousingData \<Rightarrow> Row list option" where
  "chron_previous tm data =
     (case rev (chronological tm (snapshots data)) of
        _ # s # _ \<Rightarrow> Some (rows s)
      | _ \<Rightarrow> None)"

definition instant_ms :: "string \<Rightarrow> int" where
  "instant_ms ts = (case iso_instant ts of Some t \<Rightarrow> t | None \<Rightarrow> 0)"

text \<open>
  A row passes the filters when its gender, its building and its room type are the
  selected ones, each unless \<open>All\<close> is selected, and when the search text, if there
  is one, occurs in its building or in its room type, letter case apart.
\<close>

definition passes :: "filters \<Rightarrow> Row \<Rightarrow> bool" where
  "passes fl r \<longleftrightarrow>
     (sel_gender fl = ''All'' \<or> gender r = sel_gender fl)
     \<and> (sel_building fl = ''All'' \<or> building r = sel_building fl)
     \<and> (sel_roomType fl = ''All'' \<or> roomType r = sel_roomType fl)
     \<and> (sel_q fl = []
          \<or> str_includes (toLowerCase (building r)) (toLowerCase (sel_q fl))
          \<or> str_includes (toLowerCase (roomType r)) (toLowerCase (sel_q fl)))"

text \<open>The total of the rows with a given key.\<close>

definition key_total :: "string \<Rightarrow> Row list \<Rightarrow> int" where
  "key_total k rs = sum_list (map bedSpaces (filter (\<lambda>r. group_key r = k) rs))"

definition has_key :: "string \<Rightarrow> Row list \<Rightarrow> bool" where
  "has_key k rs \<longleftrightarrow> list_ex (\<lambda>r. group_key r = k) rs"

text \<open>
  The invariant of the grouping loop: the groups built from the rows \<open>rs\<close> have
  distinct keys, the keys are those of the rows, and each group holds the total of its
  key and no change yet.
\<close>

definition grouped_inv :: "GroupedRow list \<Rightarrow> Row list \<Rightarrow> bool" where
  "grouped_inv G rs \<longleftrightarrow>
     distinct (map key G) \<and> key ` set G = group_key ` set rs
     \<and> (\<forall>g\<in>set G. totalBeds g = key_total (key g) rs \<and> change g = None)"


definition march7 :: Snapshot where
  "march7 = \<lparr> timestamp = ''2026-03-07T23:00:00-08:00'', rows = example_rows \<rparr>"

definition march9 :: Snapshot where
  "march9 =
     \<lparr> timestamp = ''2026-03-09T09:00:00-07:00'',
       rows = [\<lparr> building = ''Hedrick'', roomType = ''Unknown'', gender = ''Female'', bedSpaces = 8 \<rparr>,
               \<lparr> building = ''Hedrick'', roomType = ''Unknown'', gender = ''Male'', bedSpaces = 4 \<rparr>,
               \<lparr> building = ''Rieber'', roomType = ''Triple'', gender = ''Male'', bedSpaces = 6 \<rparr>] \<rparr>"


definition out_of_order :: HousingData where
  "out_of_order = \<lparr> snapshots = [march9, march7], lastUpdated = Some (timestamp march7) \<rparr>"




section \<open>Notions used to state the order-independence of column resolution\<close>

text \<open>
  A permutation of \<open>n\<close> columns is a list \<open>p\<close> of the indices below \<open>n\<close>, each
  once; the permuted row has the cell \<open>p ! j\<close> of the row in place \<open>j\<close>.
\<close>

definition permute :: "nat list \<Rightarrow> 'a list \<Rightarrow> 'a list" where
  "permute p xs = map (\<lambda>i. xs ! i) p"

definition is_perm :: "nat list \<Rightarrow> nat \<Rightarrow> bool" where
  "is_perm p n \<longleftrightarrow> distinct p \<and> list_all (\<lambda>i. i < n) p \<and> length p = n"

text \<open>
  A role is resolved without ambiguity when the first of its keywords that occurs in a
  header occurs in one header only.
\<close>

fun unambiguous_role :: "string list \<Rightarrow> string list \<Rightarrow> bool" where
  "unambiguous_role headers [] = True"
| "unambiguous_role headers (kw # kws) =
     (if list_ex (\<lambda>h. str_includes h kw) headers
      then length (filter (\<lambda>h. str_includes h kw) headers) = 1
      else unambiguous_role headers kws)"

definition unambiguous :: "string list \<Rightarrow> bool" where
  "unambiguous headers \<longleftrightarrow>
     list_all (unambiguous_role headers)
       [building_kws, roomType_kws, gender_kws, bed_kws, updated_kws]"

text \<open>
  The text \<open>text'\<close> is the text \<open>text\<close> with its columns permuted by \<open>p\<close>: as
  many lines, the headers permuted, and the cells of every data line, one for each
  header, permuted in the same way.
\<close>

definition permuted_line :: "nat list \<Rightarrow> string \<Rightarrow> string \<Rightarrow> bool" where
  "permuted_line p line line' \<longleftrightarrow>
     length (cells_of line) = length p \<and> cells_of line' = permute p (cells_of line)"

definition permuted_text :: "nat list \<Rightarrow> string \<Rightarrow> string \<Rightarrow> bool" where
  "permuted_text p text text' \<longleftrightarrow>
     (let ls = str_split (CHR 0x0A) (trim text); ls' = str_split (CHR 0x0A) (trim text')
      in is_perm p (length (headers_of (hd ls)))
         \<and> headers_of (hd ls') = permute p (headers_of (hd ls))
         \<and> list_all2 (permuted_line p) (tl ls) (tl ls'))"

text \<open>How two resolved indices correspond under a permutation.\<close>

definition col_match :: "nat list \<Rightarrow> nat option \<Rightarrow> nat option \<Rightarrow> bool" where
  "col_match p a b \<longleftrightarrow>
     (case a of
        None \<Rightarrow> b = None
      | Some i \<Rightarrow> (case b of None \<Rightarrow> False | Some j \<Rightarrow> j < length p \<and> p ! j = i \<and> i < length p))"

definition cols_match :: "nat list \<Rightarrow> cols \<Rightarrow> cols \<Rightarrow> bool" where
  "cols_match p cs cs' \<longleftrightarrow>
     col_match p (buildingIdx cs) (buildingIdx cs')
     \<and> col_match p (roomTypeIdx cs) (roomTypeIdx cs')
     \<and> col_match p (genderIdx cs) (genderIdx cs')
     \<and> col_match p (bedIdx cs) (bedIdx cs')
     \<and> col_match p (updatedIdx cs) (updatedIdx cs')"

text \<open>Two headers with the keyword \<open>bed\<close>, before and after swapping them.\<close>

definition bed_type_example :: string where
  "bed_type_example = unlines [''Building,Bed Type,Beds Available'', ''Hedrick,Triple,10'']"

definition bed_type_swapped :: string where
  "bed_type_swapped = unlines [''Building,Beds Available,Bed Type'', ''Hedrick,10,Triple'']"

definition gender_first_example :: string where
  "gender_first_example = unlines [''Gender,Beds,Building'', ''Female,10,'', ''Male,5,Hedrick'']"

section \<open>Properties of the parser\<close>

lemma trim_Nil [simp]: "trim [] = []"
  by (simp add: trim_def)

lemma trim_idem: "trim (trim s) = trim s"
proof -
  define t where "t = dropWhile is_ws s"
  define u where "u = dropWhile is_ws (rev t)"
  have tr: "trim s = rev u" by (simp add: trim_def t_def u_def)
  have 1: "dropWhile is_ws u = u" by (simp add: u_def)
  have 2: "dropWhile is_ws (rev u) = rev u"
  proof (cases "u = []")
    case True
    then show ?thesis by simp
  next
    case False
    have "rev t = takeWhile is_ws (rev t) @ u" by (simp add: u_def)
    then have "last (rev t) = last u" using False by (metis last_appendR)
    moreover have "t \<noteq> []" using False by (auto simp: u_def)
    ultimately have "hd t = last u" by (simp add: last_rev)
    moreover have "\<not> is_ws (hd t)" using \<open>t \<noteq> []\<close> unfolding t_def by (rule hd_dropWhile)
    ultimately have "\<not> is_ws (hd (rev u))" using False by (simp add: hd_rev)
    then show ?thesis using False by (cases "rev u") auto
  qed
  show ?thesis unfolding tr by (simp add: trim_def 1 2)
qed

lemma trim_empty_iff: "trim s = [] \<longleftrightarrow> (\<forall>c\<in>set s. is_ws c)"
proof -
  have "trim s = [] \<longleftrightarrow> (\<forall>c\<in>set (dropWhile is_ws s). is_ws c)"
    by (simp add: trim_def dropWhile_eq_Nil_conv)
  also have "\<dots> \<longleftrightarrow> dropWhile is_ws (dropWhile is_ws s) = []"
    by (simp only: dropWhile_eq_Nil_conv)
  also have "\<dots> \<longleftrightarrow> (\<forall>c\<in>set s. is_ws c)"
    by (simp add: dropWhile_eq_Nil_conv)
  finally show ?thesis .
qed

lemma split_acc_nonempty: "split_acc sep cur s \<noteq> []"
  by (induction s arbitrary: cur) auto

lemma cells_loop_ws:
  "\<forall>c\<in>set line. is_ws c \<Longrightarrow> cells_loop cells cur q line = cells @ [trim (cur @ line)]"
proof (induction line arbitrary: cur)
  case Nil
  then show ?case by simp
next
  case (Cons c line)
  from Cons.prems have "c \<noteq> dquote" "c \<noteq> CHR '',''"
    by (auto simp: is_ws_def dquote_def)
  then show ?case using Cons by simp
qed

lemma blank_line_no_building: "blank_line line \<Longrightarrow> \<not> has_building cs line"
proof -
  assume "blank_line line"
  then have ws: "\<forall>c\<in>set line. is_ws c" by (simp add: blank_line_def trim_empty_iff)
  then have "cells_of line = [[]]"
    using cells_loop_ws [of line "[]" "[]" False] \<open>blank_line line\<close>
    by (simp add: cells_of_def blank_line_def)
  then show ?thesis
    by (cases "buildingIdx cs")
       (auto simp: has_building_def cell_text_def clean_cell_def or_else_def item_def
                   strip_quotes_def)
qed

lemma lines_loop_rows:
  "fst (lines_loop plu cs rs lu lines) =
     rs @ map (row_of_line cs) (filter (has_building cs) lines)"
proof (induction lines arbitrary: rs lu)
  case Nil
  then show ?case by simp
next
  case (Cons line lines)
  show ?case
  proof (cases "clean_cell (cells_of line) (buildingIdx cs)")
    case None
    then show ?thesis
      using Cons.IH by (simp add: has_building_def cell_text_def or_else_def)
  next
    case (Some b)
    then show ?thesis
      using Cons.IH
      by (simp add: has_building_def cell_text_def or_else_def row_of_line_def Let_def)
  qed
qed

lemma parseCSV_structural_failure:
  "structural_failure text \<Longrightarrow> parseCSV plu text = ([], None)"
  by (auto simp: structural_failure_def parseCSV_def header_cols_def Let_def)

lemma parseCSV_rows:
  assumes "buildingIdx (header_cols text) \<noteq> None" and "bedIdx (header_cols text) \<noteq> None"
  shows "fst (parseCSV plu text) =
           map (row_of_line (header_cols text))
             (filter (has_building (header_cols text)) (data_lines text))"
proof (cases "length (str_split (CHR 0x0A) (trim text)) < 2")
  case True
  then obtain l where "str_split (CHR 0x0A) (trim text) = [l]"
    using split_acc_nonempty [of "CHR 0x0A" "[]" "trim text"]
    by (cases "str_split (CHR 0x0A) (trim text)") (auto simp: str_split_def)
  then show ?thesis
    by (simp add: parseCSV_def data_lines_def)
next
  case False
  then show ?thesis
    using assms
    by (auto simp add: parseCSV_def data_lines_def header_cols_def Let_def lines_loop_rows)
qed

text \<open>
  The input with header \<open>Building,Gender,Beds\<close> and the data lines \<open>,Female,10\<close>
  and \<open>Hedrick,Male,5\<close>: the first line has text in it and a blank building cell, it
  gives no row, and the line after it is parsed.
\<close>

lemma blank_building_line_skipped:
  "buildingIdx (header_cols blank_building_example) \<noteq> None
   \<and> bedIdx (header_cols blank_building_example) \<noteq> None
   \<and> length (nonblank_data_lines blank_building_example) = 2
   \<and> fst (parseCSV_fetch blank_building_example) =
       [\<lparr> building = ''Hedrick'', roomType = ''Unknown'', gender = ''Male'', bedSpaces = 5 \<rparr>]"
  by code_simp

text \<open>
  C7. For every text whose header resolves a building and a bed-count column, the
  parsed rows are the rows of the data lines whose building cell is not blank after
  trimming, in file order, so their number is the number of those lines: these are the
  data lines that count as not blank. A line with a blank building cell, such as
  \<open>,Female,10\<close>, gives no row, and the lines after it are still parsed. A line of
  white space only has no building, and when every other data line has one, the number
  of rows is the number of data lines that are not white space only.
\<close>

theorem row_count_building_lines:
  assumes "buildingIdx (header_cols text) \<noteq> None" and "bedIdx (header_cols text) \<noteq> None"
  shows "fst (parseCSV plu text) =
           map (row_of_line (header_cols text))
             (filter (has_building (header_cols text)) (data_lines text))
         \<and> length (fst (parseCSV plu text)) =
             length (filter (has_building (header_cols text)) (data_lines text))
         \<and> ((\<forall>l\<in>set (data_lines text). \<not> blank_line l \<longrightarrow> has_building (header_cols text) l)
              \<longrightarrow> length (fst (parseCSV plu text)) = length (nonblank_data_lines text))"
proof -
  let ?cs = "header_cols text"
  have rows_eq: "fst (parseCSV plu text) = map (row_of_line ?cs) (filter (has_building ?cs) (data_lines text))"
    using assms by (rule parseCSV_rows)
  have "filter (has_building ?cs) (data_lines text) = filter (\<lambda>l. \<not> blank_line l) (data_lines text)"
    if "\<forall>l\<in>set (data_lines text). \<not> blank_line l \<longrightarrow> has_building ?cs l"
    using that blank_line_no_building [of _ ?cs] by (intro filter_cong) auto
  then show ?thesis using rows_eq by (simp add: nonblank_data_lines_def)
qed

theorem row_count_building_lines_witness:
  "buildingIdx (header_cols blank_building_example) \<noteq> None
   \<and> bedIdx (header_cols blank_building_example) \<noteq> None
   \<and> length (fst (parseCSV parseLastUpdated_fetch blank_building_example)) =
       length (filter (has_building (header_cols blank_building_example))
                 (data_lines blank_building_example))
   \<and> length (fst (parseCSV parseLastUpdated_fetch blank_building_example)) = 1"
proof -
  have b: "buildingIdx (header_cols blank_building_example) \<noteq> None" by code_simp
  have c: "bedIdx (header_cols blank_building_example) \<noteq> None" by code_simp
  have n: "length (filter (has_building (header_cols blank_building_example))
                 (data_lines blank_building_example)) = 1" by code_simp
  show ?thesis
    using b c n row_count_building_lines [OF b c, of parseLastUpdated_fetch] by simp
qed

lemma parseInt_nonneg:
  "parseInt s = Some n \<Longrightarrow> \<not> starts_with (dropWhile is_ws s) ''-'' \<Longrightarrow> 0 \<le> n"
  by (auto simp: parseInt_def Let_def split: if_splits)

lemma make_row_fields:
  "building (make_row cs b cells) = b"
  "roomType (make_row cs b cells) = or_else (clean_cell cells (roomTypeIdx cs)) ''Unknown''"
  "gender (make_row cs b cells) = or_else (clean_cell cells (genderIdx cs)) ''All''"
  by (auto simp: make_row_def clean_cell_def or_else_def)

lemma has_building_trim:
  "has_building cs line \<Longrightarrow> trim (cell_text (buildingIdx cs) line) = cell_text (buildingIdx cs) line"
  by (auto simp: has_building_def cell_text_def clean_cell_def or_else_def trim_idem
           split: option.splits if_splits)

lemma row_of_line_invariants:
  assumes "has_building cs line"
  shows "trim (building (row_of_line cs line)) \<noteq> []"
    and "cell_text (roomTypeIdx cs) line = [] \<Longrightarrow> roomType (row_of_line cs line) = ''Unknown''"
    and "cell_text (genderIdx cs) line = [] \<Longrightarrow> gender (row_of_line cs line) = ''All''"
    and "parseInt_opt (bed_cell cs line) = None \<Longrightarrow> bedSpaces (row_of_line cs line) = 0"
    and "\<not> minus_signed (bed_cell cs line) \<Longrightarrow> 0 \<le> bedSpaces (row_of_line cs line)"
proof -
  show "trim (building (row_of_line cs line)) \<noteq> []"
    using assms has_building_trim [OF assms]
    by (simp add: row_of_line_def make_row_fields has_building_def)
  show "cell_text (roomTypeIdx cs) line = [] \<Longrightarrow> roomType (row_of_line cs line) = ''Unknown''"
    by (auto simp: row_of_line_def make_row_fields cell_text_def or_else_def split: option.splits if_splits)
  show "cell_text (genderIdx cs) line = [] \<Longrightarrow> gender (row_of_line cs line) = ''All''"
    by (auto simp: row_of_line_def make_row_fields cell_text_def or_else_def split: option.splits if_splits)
  show "parseInt_opt (bed_cell cs line) = None \<Longrightarrow> bedSpaces (row_of_line cs line) = 0"
    by (simp add: row_of_line_def make_row_def bed_cell_def)
  show "\<not> minus_signed (bed_cell cs line) \<Longrightarrow> 0 \<le> bedSpaces (row_of_line cs line)"
    using parseInt_nonneg
    by (auto simp: row_of_line_def make_row_def bed_cell_def minus_signed_def parseInt_opt_def
             split: option.splits)
qed

text \<open>
  C8 (counterexample). The header \<open>Building,Beds\<close> with the data line
  \<open>Hedrick,-5\<close> gives a row whose \<open>bedSpaces\<close> is \<open>-5\<close>: \<open>parseInt\<close> reads the
  sign, and \<open>-5 || 0\<close> is \<open>-5\<close>.
\<close>

theorem negative_beds_counterexample:
  "fst (parseCSV_fetch negative_beds_example) =
     [\<lparr> building = ''Hedrick'', roomType = ''Unknown'', gender = ''All'', bedSpaces = - 5 \<rparr>]"
  by code_simp

text \<open>
  C8 (amended). Every row that the parser returns comes from a data line and has a
  building that is not empty after trimming; its \<open>roomType\<close> is \<open>Unknown\<close> and its
  \<open>gender\<close> is \<open>All\<close> when the column is unresolved or the cell is missing or empty;
  its \<open>bedSpaces\<close> is an integer, \<open>0\<close> when the bed-count cell is missing or not
  numeric, and not negative unless that cell starts with a minus sign.
\<close>

theorem row_invariants:
  assumes "r \<in> set (fst (parseCSV plu text))"
  shows "\<exists>line\<in>set (data_lines text).
           r = row_of_line (header_cols text) line
           \<and> trim (building r) \<noteq> []
           \<and> (cell_text (roomTypeIdx (header_cols text)) line = [] \<longrightarrow> roomType r = ''Unknown'')
           \<and> (cell_text (genderIdx (header_cols text)) line = [] \<longrightarrow> gender r = ''All'')
           \<and> (parseInt_opt (bed_cell (header_cols text) line) = None \<longrightarrow> bedSpaces r = 0)
           \<and> (\<not> minus_signed (bed_cell (header_cols text) line) \<longrightarrow> 0 \<le> bedSpaces r)"
proof -
  let ?cs = "header_cols text"
  have res: "buildingIdx ?cs \<noteq> None \<and> bedIdx ?cs \<noteq> None"
  proof (rule ccontr)
    assume "\<not> ?thesis"
    then have "structural_failure text" by (auto simp: structural_failure_def)
    then show False using assms by (simp add: parseCSV_structural_failure)
  qed
  then have "r \<in> row_of_line ?cs ` {l \<in> set (data_lines text). has_building ?cs l}"
    using assms parseCSV_rows [of "text" plu] by auto
  then obtain line where l: "line \<in> set (data_lines text)" "has_building ?cs line"
      "r = row_of_line ?cs line" by auto
  show ?thesis
    using l row_of_line_invariants [OF l(2)] by (intro bexI [of _ line]) auto
qed

theorem row_invariants_witness:
  "\<lparr> building = ''Hedrick'', roomType = ''Unknown'', gender = ''Male'', bedSpaces = 5 \<rparr>
     \<in> set (fst (parseCSV parseLastUpdated_fetch blank_building_example))
   \<and> (\<exists>line\<in>set (data_lines blank_building_example).
         \<lparr> building = ''Hedrick'', roomType = ''Unknown'', gender = ''Male'', bedSpaces = 5 \<rparr>
           = row_of_line (header_cols blank_building_example) line)"
proof -
  have m: "\<lparr> building = ''Hedrick'', roomType = ''Unknown'', gender = ''Male'', bedSpaces = 5 \<rparr>
     \<in> set (fst (parseCSV parseLastUpdated_fetch blank_building_example))"
    by code_simp
  show ?thesis
    using m row_invariants [OF m] by blast
qed


lemma updated_raws_Nil [simp]: "updated_raws cs [] = []"
  by (simp add: updated_raws_def map_filter_simps)

lemma updated_raws_Cons:
  "updated_raws cs (line # lines) =
     (if has_building cs line
      then (case updated_cell cs line of
              None \<Rightarrow> updated_raws cs lines
            | Some raw \<Rightarrow> if raw \<noteq> [] then raw # updated_raws cs lines else updated_raws cs lines)
      else updated_raws cs lines)"
  by (simp add: updated_raws_def map_filter_simps split: option.splits)

lemma or_else_falsy: "falsy x \<Longrightarrow> or_else x d = d"
  by (auto simp: falsy_def or_else_def)

lemma lines_loop_lastUpdated:
  "or_else (snd (lines_loop plu cs rs lu lines)) now =
     (if falsy lu
      then (case first_parsed plu (updated_raws cs lines) of Some t \<Rightarrow> t | None \<Rightarrow> now)
      else or_else lu now)"
proof (induction lines arbitrary: rs lu)
  case Nil
  then show ?case by (simp add: or_else_falsy)
next
  case (Cons line lines)
  show ?case
  proof (cases "has_building cs line")
    case False
    then have "lines_loop plu cs rs lu (line # lines) = lines_loop plu cs rs lu lines"
      by (auto simp: has_building_def cell_text_def or_else_def split: option.splits)
    then show ?thesis using False Cons.IH by (simp add: updated_raws_Cons)
  next
    case True
    then obtain b where b: "clean_cell (cells_of line) (buildingIdx cs) = Some b" "b \<noteq> []"
      by (auto simp: has_building_def cell_text_def or_else_def split: option.splits if_splits)
    show ?thesis
    proof (cases "updated_cell cs line")
      case None
      then show ?thesis using True b Cons.IH
        by (simp add: updated_raws_Cons updated_cell_def Let_def)
    next
      case (Some raw)
      show ?thesis
      proof (cases "falsy lu \<and> raw \<noteq> []")
        case False
        then show ?thesis using True b Some Cons.IH
          by (auto simp add: updated_raws_Cons updated_cell_def Let_def)
      next
        case t: True
        have "lines_loop plu cs rs lu (line # lines)
              = lines_loop plu cs (rs @ [make_row cs b (cells_of line)]) (plu raw) lines"
          using b Some t by (simp add: updated_cell_def Let_def)
        then show ?thesis using True Some t Cons.IH [of _ "plu raw"]
          by (auto simp add: updated_raws_Cons or_else_def falsy_def split: option.splits)
      qed
    qed
  qed
qed

lemma parseCSV_no_failure:
  "\<not> structural_failure text \<Longrightarrow>
     parseCSV plu text = lines_loop plu (header_cols text) [] None (data_lines text)"
  by (auto simp: structural_failure_def parseCSV_def header_cols_def data_lines_def Let_def)

lemma parseCSV_snapshotTime:
  assumes "fst (parseCSV plu text) \<noteq> []"
  shows "or_else (snd (parseCSV plu text)) now =
           (case first_parsed plu (updated_raws (header_cols text) (data_lines text)) of
              Some t \<Rightarrow> t | None \<Rightarrow> now)"
proof -
  have "\<not> structural_failure text"
    using assms parseCSV_structural_failure [of "text" plu] by auto
  then show ?thesis
    by (simp add: parseCSV_no_failure lines_loop_lastUpdated falsy_def)
qed

subsection \<open>Example runs\<close>

lemma parse_updated_example:
  "parseCSV plu updated_example =
     (example_rows,
      if falsy (plu ''3/7/2026 11:00 PM'') then plu ''3/8/2026 12:00 AM''
      else plu ''3/7/2026 11:00 PM'')"
  apply code_simp
  apply simp
  done

lemma match_example:
  "match_ts (trim (strip_quotes ''3/7/2026 11:00 PM''))
     = Some (''3'', ''7'', ''2026'', ''11'', ''00'', '' PM'')"
  by code_simp

lemma group_int_example:
  "group_int ''3'' = 3" "group_int ''7'' = 7" "group_int ''2026'' = 2026" "group_int ''00'' = 0"
  by code_simp+

lemma hour24_example: "hour24 ''11'' '' PM'' = 23"
  by code_simp

lemma new_Date_example: "new_Date 0 2026 2 7 23 0 = Some 1772924400000"
  by code_simp

lemma toISOString_example: "toISOString 1772924400000 = ''2026-03-07T23:00:00.000Z''"
  by code_simp

lemma upload_resolves_example:
  "parseLastUpdated_upload 0 ''3/7/2026 11:00 PM'' = Some ''2026-03-07T23:00:00.000Z''"
  by (simp add: parseLastUpdated_upload_def match_example group_int_example hour24_example
        new_Date_example toISOString_example)

lemma fetch_resolves_example:
  "parseLastUpdated_fetch ''3/7/2026 11:00 PM'' = Some ''2026-03-07T23:00:00-08:00''"
  by code_simp

lemma upload_parse_example:
  "parseCSV_upload 0 updated_example = (example_rows, Some ''2026-03-07T23:00:00.000Z'')"
  by (simp add: parseCSV_upload_def parse_updated_example upload_resolves_example falsy_def)

lemma fetch_parse_example:
  "parseCSV_fetch updated_example = (example_rows, Some ''2026-03-07T23:00:00-08:00'')"
  by (simp add: parseCSV_fetch_def parse_updated_example fetch_resolves_example falsy_def)

lemma fetchCSV_example: "fetchCSV [None, Some updated_example] = Some updated_example"
  by code_simp

lemma example_rows_length: "length example_rows = 2" "example_rows \<noteq> []"
  by (simp_all add: example_rows_def)

lemma upload_example_run:
  "POST 0 (Some ''pw'') (Some ''pw'') (Some updated_example) wall_clock Missing
     = (Success_response 2 1, Stored uploaded_once)"
  by (simp add: POST_def upload_parse_example example_rows_length falsy_def or_else_def
        load_existing_def empty_history_def push_snapshot_def uploaded_once_def Let_def)

lemma fetch_example_run:
  "main [None, Some updated_example] wall_clock Missing = (Saved 1, Stored fetched_once)"
  by (simp add: main_def fetchCSV_example fetch_parse_example example_rows_length or_else_def
        load_existing_def empty_history_def push_snapshot_def fetched_once_def Let_def
      del: fetchCSV.simps)

section \<open>Properties of ingestion\<close>

text \<open>
  C10. When an upload or a fetch commits a snapshot, the timestamp of the snapshot it
  appends is the result of the first successful parse among the non-empty updated-at
  cells of the data lines that have a building, in file order (the cells after it are
  not looked at), and the wall clock \<open>now\<close> when the updated-at column is unresolved
  or no such cell parses.
\<close>

theorem snapshot_timestamp_source:
  "(POST tz cp pw (Some text) now store = (Success_response n k, store') \<longrightarrow>
      (\<exists>d. store' = Stored d \<and> snapshots d \<noteq> []
         \<and> timestamp (last (snapshots d)) =
             (case first_parsed (parseLastUpdated_upload tz)
                     (updated_raws (header_cols text) (data_lines text)) of
                Some t \<Rightarrow> t | None \<Rightarrow> now)))
   \<and> (fetchCSV responses = Some text \<and> main responses now store = (Saved n, store') \<longrightarrow>
      (\<exists>d. store' = Stored d \<and> snapshots d \<noteq> []
         \<and> timestamp (last (snapshots d)) =
             (case first_parsed parseLastUpdated_fetch
                     (updated_raws (header_cols text) (data_lines text)) of
                Some t \<Rightarrow> t | None \<Rightarrow> now)))"
proof (intro conjI impI)
  assume a: "POST tz cp pw (Some text) now store = (Success_response n k, store')"
  obtain parsed ts where p: "parseCSV (parseLastUpdated_upload tz) text = (parsed, ts)"
    by (cases "parseCSV (parseLastUpdated_upload tz) text")
  from a p have ne: "parsed \<noteq> []"
    by (auto simp: POST_def parseCSV_upload_def Let_def split: if_splits)
  with a p have "store' = Stored (push_snapshot (load_existing store) (or_else ts now) parsed)"
    by (auto simp: POST_def parseCSV_upload_def Let_def split: if_splits)
  moreover have "or_else ts now = (case first_parsed (parseLastUpdated_upload tz)
                     (updated_raws (header_cols text) (data_lines text)) of
                Some t \<Rightarrow> t | None \<Rightarrow> now)"
    using parseCSV_snapshotTime [of "parseLastUpdated_upload tz" "text" now] p ne by simp
  ultimately show "\<exists>d. store' = Stored d \<and> snapshots d \<noteq> []
         \<and> timestamp (last (snapshots d)) =
             (case first_parsed (parseLastUpdated_upload tz)
                     (updated_raws (header_cols text) (data_lines text)) of
                Some t \<Rightarrow> t | None \<Rightarrow> now)"
    by (simp add: push_snapshot_def)
next
  assume a: "fetchCSV responses = Some text \<and> main responses now store = (Saved n, store')"
  obtain parsed ts where p: "parseCSV parseLastUpdated_fetch text = (parsed, ts)"
    by (cases "parseCSV parseLastUpdated_fetch text")
  from a p have ne: "parsed \<noteq> []"
    by (auto simp: main_def parseCSV_fetch_def Let_def split: if_splits)
  with a p have "store' = Stored (push_snapshot (load_existing store) (or_else ts now) parsed)"
    by (auto simp: main_def parseCSV_fetch_def Let_def split: if_splits)
  moreover have "or_else ts now = (case first_parsed parseLastUpdated_fetch
                     (updated_raws (header_cols text) (data_lines text)) of
                Some t \<Rightarrow> t | None \<Rightarrow> now)"
    using parseCSV_snapshotTime [of parseLastUpdated_fetch "text" now] p ne by simp
  ultimately show "\<exists>d. store' = Stored d \<and> snapshots d \<noteq> []
         \<and> timestamp (last (snapshots d)) =
             (case first_parsed parseLastUpdated_fetch
                     (updated_raws (header_cols text) (data_lines text)) of
                Some t \<Rightarrow> t | None \<Rightarrow> now)"
    by (simp add: push_snapshot_def)
qed

theorem snapshot_timestamp_source_witness:
  "POST 0 (Some ''pw'') (Some ''pw'') (Some updated_example) wall_clock Missing
     = (Success_response 2 1, Stored uploaded_once)
   \<and> (case first_parsed (parseLastUpdated_upload 0)
              (updated_raws (header_cols updated_example) (data_lines updated_example)) of
         Some t \<Rightarrow> t | None \<Rightarrow> wall_clock) = ''2026-03-07T23:00:00.000Z''
   \<and> fetchCSV [None, Some updated_example] = Some updated_example
   \<and> main [None, Some updated_example] wall_clock Missing = (Saved 1, Stored fetched_once)
   \<and> (case first_parsed parseLastUpdated_fetch
              (updated_raws (header_cols updated_example) (data_lines updated_example)) of
         Some t \<Rightarrow> t | None \<Rightarrow> wall_clock) = ''2026-03-07T23:00:00-08:00''"
proof -
  note u = upload_example_run
  note f = fetchCSV_example
  note m = fetch_example_run
  show ?thesis
    using u f m
      snapshot_timestamp_source [of 0 "Some ''pw''" "Some ''pw''" updated_example wall_clock
        Missing 2 1 "Stored uploaded_once" "[None, Some updated_example]"]
      snapshot_timestamp_source [of 0 "Some ''pw''" "Some ''pw''" updated_example wall_clock
        Missing 1 1 "Stored fetched_once" "[None, Some updated_example]"]
    by (simp add: uploaded_once_def fetched_once_def)
qed

text \<open>
  C6. When the text has fewer than two lines, or its header resolves no building
  column or no bed-count column, the parser returns no row; the upload route answers
  an authenticated request with the status 400 and the message that no row could be
  parsed, the fetch script ends with exit code 1, and both leave the file of the store
  as it was.
\<close>

theorem structural_failure_no_write:
  assumes "structural_failure text"
  shows "fst (parseCSV plu text) = []
         \<and> (\<not> falsy cp \<and> pw = cp \<longrightarrow>
              POST tz cp pw (Some text) now store = (Error_response 400 no_rows_message, store))
         \<and> snd (POST tz cp pw (Some text) now store) = store
         \<and> (fetchCSV responses = Some text \<longrightarrow> main responses now store = (Exit 1, store))"
  using parseCSV_structural_failure [OF assms]
  by (auto simp: POST_def main_def parseCSV_upload_def parseCSV_fetch_def)

theorem structural_failure_no_write_witness:
  "structural_failure no_building_example
   \<and> POST 0 (Some ''pw'') (Some ''pw'') (Some no_building_example) wall_clock (Stored fetched_once)
       = (Error_response 400 no_rows_message, Stored fetched_once)
   \<and> fetchCSV [Some no_building_example] = Some no_building_example
   \<and> main [Some no_building_example] wall_clock (Stored fetched_once) = (Exit 1, Stored fetched_once)"
proof -
  have s: "structural_failure no_building_example" by code_simp
  have f: "fetchCSV [Some no_building_example] = Some no_building_example" by code_simp
  show ?thesis
    using s f
      structural_failure_no_write [OF s, of parseLastUpdated_fetch "Some ''pw''" "Some ''pw''" 0
        wall_clock "Stored fetched_once" "[Some no_building_example]"]
    by (simp add: falsy_def)
qed

text \<open>
  The fetch script skips a snapshot whose timestamp is already in the store, and the
  upload route appends whatever it parsed.
\<close>

lemma main_duplicate_skipped:
  assumes "fetchCSV responses = Some text"
    and "parseCSV_fetch text = (parsed, ts)"
    and "\<exists>s\<in>set (snapshots (load_existing store)). timestamp s = or_else ts now"
  shows "snd (main responses now store) = store"
  using assms by (auto simp: main_def Let_def list_ex_iff)

lemma POST_appends:
  assumes "\<not> falsy cp" and "parseCSV_upload tz text = (parsed, ts)" and "parsed \<noteq> []"
  shows "snd (POST tz cp cp (Some text) now store) =
           Stored (push_snapshot (load_existing store) (or_else ts now) parsed)"
  using assms by (auto simp: POST_def Let_def)


text \<open>
  C1 (the upload route at a duplicate). The store holds the snapshot of
  \<open>updated_example\<close> with timestamp \<open>2026-03-07T23:00:00.000Z\<close>; uploading the
  same file again answers with success and two snapshots, and the store then holds the
  snapshot twice.
\<close>

theorem upload_duplicate_appended:
  "list_ex (\<lambda>s. timestamp s = ''2026-03-07T23:00:00.000Z'') (snapshots uploaded_once)
   \<and> POST 0 (Some ''pw'') (Some ''pw'') (Some updated_example) wall_clock (Stored uploaded_once)
       = (Success_response 2 2,
          Stored \<lparr> snapshots = snapshots uploaded_once @ snapshots uploaded_once,
                   lastUpdated = Some ''2026-03-07T23:00:00.000Z'' \<rparr>)"
  by (simp add: POST_def upload_parse_example example_rows_length falsy_def or_else_def
        load_existing_def push_snapshot_def uploaded_once_def Let_def)


section \<open>Properties of the aggregation\<close>

lemma latest_last: "latest data = (if snapshots data = [] then [] else rows (last (snapshots data)))"
  by (simp add: latest_def last_conv_nth)

lemma latest_rev: "latest data = (case rev (snapshots data) of [] \<Rightarrow> [] | s # _ \<Rightarrow> rows s)"
  by (cases "snapshots data" rule: rev_cases) (simp_all add: latest_def)

lemma prev_rev:
  "prev data = (case rev (snapshots data) of _ # s # _ \<Rightarrow> Some (rows s) | _ \<Rightarrow> None)"
proof (cases "snapshots data" rule: rev_cases)
  case Nil
  then show ?thesis by (simp add: prev_def)
next
  case (snoc ys y)
  then show ?thesis
    by (cases ys rule: rev_cases) (simp_all add: prev_def nth_append)
qed

text \<open>
  Whatever the order of the stored sequence, \<open>latest\<close> and \<open>prev\<close> are the rows of
  its last and last but one element; they are the chronologically last and last but
  one when the sequence is stored in ascending order of time.
\<close>

lemma latest_is_last_stored:
  "latest data = (case rev (snapshots data) of [] \<Rightarrow> [] | s # _ \<Rightarrow> rows s)
   \<and> prev data = (case rev (snapshots data) of _ # s # _ \<Rightarrow> Some (rows s) | _ \<Rightarrow> None)
   \<and> (sorted (map (\<lambda>s. tm (timestamp s)) (snapshots data)) \<longrightarrow>
        latest data = chron_latest tm data \<and> prev data = chron_previous tm data)"
  by (simp add: latest_rev prev_rev chron_latest_def chron_previous_def chronological_def
        sort_key_id_if_sorted)

text \<open>
  C2 (a history stored out of order). The store holds the snapshot of March 9 first and
  the snapshot of March 7 after it, as two uploads in that order leave it. \<open>latest\<close>
  is then the rows of March 7 and \<open>prev\<close> those of March 9, while the chronologically
  last snapshot is that of March 9 and the one before it that of March 7: the snapshots
  are not sorted before the two are selected. The chart of the same page sorts its
  points by time, and its last point is that of March 9.
\<close>

theorem latest_out_of_order:
  "latest out_of_order = rows march7
   \<and> chron_latest instant_ms out_of_order = rows march9
   \<and> prev out_of_order = Some (rows march9)
   \<and> chron_previous instant_ms out_of_order = Some (rows march7)
   \<and> rows march7 \<noteq> rows march9
   \<and> map pt_timestamp (chartData (snapshots out_of_order) ''Hedrick'' ''Unknown'' ''All'')
       = [timestamp march7, timestamp march9]"
  by code_simp

subsection \<open>Grouping\<close>

lemma set_insert_sorted: "set (insert_sorted cmp x ys) = insert x (set ys)"
  by (induction ys) auto

lemma set_sort_with: "set (sort_with cmp xs) = set xs"
  by (induction xs) (simp_all add: sort_with_def set_insert_sorted)

lemma key_total_snoc:
  "key_total k (rs @ [r]) = key_total k rs + (if group_key r = k then bedSpaces r else 0)"
  by (simp add: key_total_def)


lemma key_total_absent: "\<not> has_key k rs \<Longrightarrow> key_total k rs = 0"
proof -
  assume "\<not> has_key k rs"
  then have "filter (\<lambda>r. group_key r = k) rs = []"
    by (auto simp: has_key_def list_ex_iff filter_empty_conv)
  then show ?thesis by (simp add: key_total_def)
qed


lemma keys_add_row:
  "key ` set (add_row G r) = insert (group_key r) (key ` set G)"
  by (induction G) auto

lemma distinct_add_row:
  "distinct (map key G) \<Longrightarrow> distinct (map key (add_row G r))"
proof (induction G)
  case Nil
  then show ?case by simp
next
  case (Cons g G)
  then show ?case
    using keys_add_row [of G r] by (auto simp: image_iff)
qed

lemma add_row_cases:
  assumes "distinct (map key G)" and "g' \<in> set (add_row G r)"
  shows "(g' \<in> set G \<and> key g' \<noteq> group_key r)
         \<or> (\<exists>g\<in>set G. key g = group_key r \<and> key g' = key g
               \<and> totalBeds g' = totalBeds g + bedSpaces r \<and> change g' = change g)
         \<or> (group_key r \<notin> key ` set G \<and> key g' = group_key r
               \<and> totalBeds g' = bedSpaces r \<and> change g' = None)"
  using assms
proof (induction G)
  case Nil
  then show ?case by auto
next
  case (Cons g G)
  show ?case
  proof (cases "key g = group_key r")
    case True
    then show ?thesis using Cons.prems by (auto simp: image_iff)
  next
    case False
    show ?thesis
    proof (cases "g' = g")
      case True
      then show ?thesis using False by simp
    next
      case ne: False
      then have "g' \<in> set (add_row G r)" using Cons.prems False by simp
      moreover have "distinct (map key G)" using Cons.prems by simp
      ultimately show ?thesis using Cons.IH False by auto
    qed
  qed
qed

lemma has_key_image: "has_key k rs \<longleftrightarrow> k \<in> group_key ` set rs"
  by (auto simp: has_key_def list_ex_iff)

lemma grouped_inv_step:
  assumes "grouped_inv G rs"
  shows "grouped_inv (add_row G r) (rs @ [r])"
proof -
  from assms have d: "distinct (map key G)" and k: "key ` set G = group_key ` set rs"
    and t: "\<And>g. g \<in> set G \<Longrightarrow> totalBeds g = key_total (key g) rs \<and> change g = None"
    by (auto simp: grouped_inv_def)
  have "totalBeds g' = key_total (key g') (rs @ [r]) \<and> change g' = None"
    if "g' \<in> set (add_row G r)" for g'
    using add_row_cases [OF d that]
  proof (elim disjE)
    assume "g' \<in> set G \<and> key g' \<noteq> group_key r"
    then show ?thesis using t [of g'] by (auto simp: key_total_snoc)
  next
    assume "\<exists>g\<in>set G. key g = group_key r \<and> key g' = key g
               \<and> totalBeds g' = totalBeds g + bedSpaces r \<and> change g' = change g"
    then show ?thesis using t by (auto simp: key_total_snoc)
  next
    assume a: "group_key r \<notin> key ` set G \<and> key g' = group_key r
               \<and> totalBeds g' = bedSpaces r \<and> change g' = None"
    then have "\<not> has_key (group_key r) rs" using k by (simp add: has_key_image)
    then show ?thesis using a by (simp add: key_total_snoc key_total_absent)
  qed
  then show ?thesis
    using distinct_add_row [OF d] keys_add_row [of G r] k by (auto simp: grouped_inv_def)
qed

lemma grouped_inv_foldl: "grouped_inv (foldl add_row [] rs) rs"
proof (induction rs rule: rev_induct)
  case Nil
  then show ?case by (simp add: grouped_inv_def)
next
  case (snoc r rs)
  then show ?case by (simp add: grouped_inv_step)
qed

lemma set_change_fields:
  "key (set_change pt g) = key g"
  "totalBeds (set_change pt g) = totalBeds g"
  "change (set_change pt g) =
     (case pt of None \<Rightarrow> change g
      | Some totals \<Rightarrow> (case totals (key g) of None \<Rightarrow> change g
                        | Some p \<Rightarrow> Some (totalBeds g - p)))"
  by (auto simp: set_change_def split: option.splits)

text \<open>The filters of the page keep the rows that pass them, in their order.\<close>

lemma apply_filters_passes: "apply_filters fl rs = filter (passes fl) rs"
  by (auto simp: apply_filters_def passes_def Let_def intro!: filter_cong)

text \<open>The table has one row for each key of the latest rows that pass the filters.\<close>

lemma table_keys:
  "key ` set (table lc sortF sortD fl data) = group_key ` set (filter (passes fl) (latest data))"
proof -
  have "grouped_inv (foldl add_row [] (apply_filters fl (latest data)))
          (apply_filters fl (latest data))"
    by (rule grouped_inv_foldl)
  then have "key ` set (foldl add_row [] (apply_filters fl (latest data)))
               = group_key ` set (apply_filters fl (latest data))"
    by (simp add: grouped_inv_def)
  then show ?thesis
    by (simp add: table_def set_sort_with image_image set_change_fields apply_filters_passes)
qed



section \<open>Properties of the timestamp resolvers\<close>

text \<open>
  The resolver of the fetch script follows the fixed rule on every input that matches
  the pattern: the text it returns ends with \<open>-08:00\<close> when the date is before
  March 8 and with \<open>-07:00\<close> from March 8 on.
\<close>

lemma fetch_offset_rule:
  assumes "raw \<noteq> []"
    and "match_ts (trim (strip_quotes raw)) = Some (month, day, year, hour, minute, rest)"
  shows "\<exists>body. parseLastUpdated_fetch raw =
           Some (body @ (if group_int month < 3 \<or> (group_int month = 3 \<and> group_int day < 8)
                         then ''-08:00'' else ''-07:00''))"
proof -
  let ?body = "year @ ''-'' @ padStart 2 (String_nat (nat (group_int month))) @ ''-''
      @ padStart 2 (String_nat (nat (group_int day))) @ ''T''
      @ padStart 2 (String_nat (nat (hour24 hour rest))) @ '':''
      @ padStart 2 (String_nat (nat (group_int minute))) @ '':00''"
  have "parseLastUpdated_fetch raw =
           Some (?body @ (if group_int month < 3 \<or> (group_int month = 3 \<and> group_int day < 8)
                         then ''-08:00'' else ''-07:00''))"
    using assms by (auto simp: parseLastUpdated_fetch_def Let_def isPDT_def)
  then show ?thesis by blast
qed

lemma fetch_ends_with_offset:
  assumes "parseLastUpdated_fetch raw = Some s"
  shows "\<exists>body. s = body @ ''-07:00'' \<or> s = body @ ''-08:00''"
proof -
  from assms have ne: "raw \<noteq> []" by (auto simp: parseLastUpdated_fetch_def)
  from assms obtain month day year hour minute rest where
    m: "match_ts (trim (strip_quotes raw)) = Some (month, day, year, hour, minute, rest)"
    by (cases "match_ts (trim (strip_quotes raw))")
       (auto simp: parseLastUpdated_fetch_def split: if_splits)
  from fetch_offset_rule [OF ne m] assms show ?thesis
    by (auto split: if_splits)
qed

text \<open>
  The resolver of the upload route returns a UTC text ending with \<open>Z\<close>, so the two
  resolvers never return the same text; the rows of the two parsers are the same.
\<close>

lemma upload_ends_with_Z:
  assumes "parseLastUpdated_upload tz raw = Some s"
  shows "\<exists>body. s = body @ ''Z''"
  using assms
  by (auto simp: parseLastUpdated_upload_def toISOString_def Let_def
           split: if_splits option.splits)

lemma resolvers_differ:
  assumes "parseLastUpdated_fetch raw = Some s"
  shows "parseLastUpdated_upload tz raw \<noteq> Some s"
proof
  assume "parseLastUpdated_upload tz raw = Some s"
  then obtain b where "s = b @ ''Z''" using upload_ends_with_Z by blast
  then have "last s = CHR ''Z''" by simp
  moreover from fetch_ends_with_offset [OF assms] have "last s = CHR ''0''" by auto
  ultimately show False by simp
qed

lemma same_rows: "fst (parseCSV_upload tz text) = fst (parseCSV_fetch text)"
proof (cases "structural_failure text")
  case True
  then show ?thesis
    by (simp add: parseCSV_upload_def parseCSV_fetch_def parseCSV_structural_failure)
next
  case False
  then show ?thesis
    by (simp add: parseCSV_upload_def parseCSV_fetch_def parseCSV_no_failure lines_loop_rows)
qed

text \<open>
  Whatever the zone of the host, the upload route reads the two texts
  \<open>3/7/2026 11:00 PM\<close> and \<open>3/8/2026 12:00 AM\<close> as instants one hour apart; the
  fixed rule makes them the same instant.
\<close>

lemma upload_one_hour_apart:
  assumes "new_Date tz 2026 2 7 23 0 = Some a" and "new_Date tz 2026 2 8 0 0 = Some b"
  shows "b = a + 3600000"
  using assms by (auto simp: new_Date_def MakeDay_def days_from_civil_def Let_def split: if_splits)

lemma match_example2:
  "match_ts (trim (strip_quotes ''3/8/2026 12:00 AM''))
     = Some (''3'', ''8'', ''2026'', ''12'', ''00'', '' AM'')"
  by code_simp

lemma group_int_example2: "group_int ''8'' = 8"
  by code_simp

lemma hour24_example2: "hour24 ''12'' '' AM'' = 0"
  by code_simp

lemma new_Date_example2: "new_Date 0 2026 2 8 0 0 = Some 1772928000000"
  by code_simp

lemma toISOString_example2: "toISOString 1772928000000 = ''2026-03-08T00:00:00.000Z''"
  by code_simp

lemma upload_resolves_example2:
  "parseLastUpdated_upload 0 ''3/8/2026 12:00 AM'' = Some ''2026-03-08T00:00:00.000Z''"
  by (simp add: parseLastUpdated_upload_def match_example2 group_int_example group_int_example2
        hour24_example2 new_Date_example2 toISOString_example2)

lemma fetch_resolves_example2:
  "parseLastUpdated_fetch ''3/8/2026 12:00 AM'' = Some ''2026-03-08T00:00:00-07:00''"
  by code_simp

lemma iso_instant_examples:
  "iso_instant ''2026-03-07T23:00:00.000Z'' = Some 1772924400000"
  "iso_instant ''2026-03-07T23:00:00-08:00'' = Some 1772953200000"
  "iso_instant ''2026-03-08T00:00:00.000Z'' = Some 1772928000000"
  "iso_instant ''2026-03-08T00:00:00-07:00'' = Some 1772953200000"
  by code_simp+

text \<open>
  C3 (the two entry points on one file). On a UTC host, the upload route and the fetch
  script parse \<open>updated_example\<close> to the same rows and to two different timestamps:
  \<open>2026-03-07T23:00:00.000Z\<close> and \<open>2026-03-07T23:00:00-08:00\<close>, which are
  instants eight hours apart.
\<close>

theorem entry_points_disagree:
  "fst (parseCSV_upload 0 updated_example) = fst (parseCSV_fetch updated_example)
   \<and> snd (parseCSV_upload 0 updated_example) = Some ''2026-03-07T23:00:00.000Z''
   \<and> snd (parseCSV_fetch updated_example) = Some ''2026-03-07T23:00:00-08:00''
   \<and> iso_instant ''2026-03-07T23:00:00.000Z'' = Some 1772924400000
   \<and> iso_instant ''2026-03-07T23:00:00-08:00'' = Some 1772953200000"
  by (simp add: upload_parse_example fetch_parse_example iso_instant_examples)

text \<open>
  C4 (the resolver of the upload route). On a UTC host the upload route resolves
  \<open>3/7/2026 11:00 PM\<close> and \<open>3/8/2026 12:00 AM\<close> to UTC texts with the same
  wall-clock fields and no Pacific offset, where the resolver of the fetch script gives
  the offsets \<open>-08:00\<close> and \<open>-07:00\<close>; for the second text the two instants are
  seven hours apart.
\<close>

theorem upload_resolver_offsets:
  "parseLastUpdated_upload 0 ''3/7/2026 11:00 PM'' = Some ''2026-03-07T23:00:00.000Z''
   \<and> parseLastUpdated_upload 0 ''3/8/2026 12:00 AM'' = Some ''2026-03-08T00:00:00.000Z''
   \<and> parseLastUpdated_fetch ''3/7/2026 11:00 PM'' = Some ''2026-03-07T23:00:00-08:00''
   \<and> parseLastUpdated_fetch ''3/8/2026 12:00 AM'' = Some ''2026-03-08T00:00:00-07:00''
   \<and> iso_instant ''2026-03-08T00:00:00.000Z'' = Some 1772928000000
   \<and> iso_instant ''2026-03-08T00:00:00-07:00'' = Some 1772953200000"
  by (simp add: upload_resolves_example upload_resolves_example2 fetch_resolves_example
        fetch_resolves_example2 iso_instant_examples)


section \<open>Order-independence of column resolution\<close>

lemma findIndex_None: "findIndex P xs = None \<longleftrightarrow> (\<forall>x\<in>set xs. \<not> P x)"
  by (induction xs) auto

lemma findIndex_Some: "findIndex P xs = Some i \<Longrightarrow> i < length xs \<and> P (xs ! i)"
  by (induction xs arbitrary: i) (auto split: if_splits)

lemma is_perm_set: "is_perm p n \<Longrightarrow> set p = {0 ..< n}"
proof -
  assume a: "is_perm p n"
  then have s: "set p \<subseteq> {0 ..< n}" by (auto simp: is_perm_def list_all_iff)
  have "card (set p) = length p" using a by (simp add: is_perm_def distinct_card)
  then have c: "card (set p) = card {0 ..< n}" using a by (simp add: is_perm_def)
  show ?thesis by (rule card_subset_eq [OF _ s c]) simp
qed

lemma filter_one_unique:
  assumes "length (filter P xs) = 1" and "a < length xs" and "b < length xs"
    and "P (xs ! a)" and "P (xs ! b)"
  shows "a = b"
proof -
  let ?S = "{i. i < length xs \<and> P (xs ! i)}"
  have c1: "card ?S = 1"
    using assms(1) by (simp only: length_filter_conv_card)
  obtain c where c: "?S = {c}" by (rule card_1_singletonE [OF c1])
  have "a \<in> ?S" "b \<in> ?S" using assms(2-5) by simp_all
  then show ?thesis unfolding c by simp
qed

lemma is_perm_nth: "is_perm p n \<Longrightarrow> j < length p \<Longrightarrow> p ! j < n"
  by (simp add: is_perm_def list_all_length)

lemma is_perm_length: "is_perm p n \<Longrightarrow> length p = n"
  by (simp add: is_perm_def)

lemma set_permute: "is_perm p (length xs) \<Longrightarrow> set (permute p xs) = set xs"
proof -
  assume a: "is_perm p (length xs)"
  have "set (permute p xs) = (\<lambda>i. xs ! i) ` {0 ..< length xs}"
    using is_perm_set [OF a] by (simp add: permute_def)
  also have "\<dots> = set xs"
    by (auto simp: set_conv_nth)
  finally show ?thesis .
qed

lemma findCol_permute:
  assumes "is_perm p (length hs)" and "unambiguous_role hs kws"
  shows "col_match p (findCol hs kws) (findCol (permute p hs) kws)"
  using assms(2)
proof (induction kws)
  case Nil
  then show ?case by (simp add: col_match_def)
next
  case (Cons kw kws)
  let ?P = "\<lambda>h. str_includes h kw"
  show ?case
  proof (cases "list_ex ?P hs")
    case False
    then have n: "findIndex ?P hs = None" by (simp add: findIndex_None list_ex_iff)
    from False have "findIndex ?P (permute p hs) = None"
      using set_permute [OF assms(1)] by (simp add: findIndex_None list_ex_iff)
    then show ?thesis using n Cons False by simp
  next
    case True
    then have one: "length (filter ?P hs) = 1" using Cons.prems by simp
    from True obtain i where i: "findIndex ?P hs = Some i"
      by (cases "findIndex ?P hs") (auto simp: findIndex_None list_ex_iff)
    from True obtain j where j: "findIndex ?P (permute p hs) = Some j"
      using set_permute [OF assms(1)]
      by (cases "findIndex ?P (permute p hs)") (auto simp: findIndex_None list_ex_iff)
    from findIndex_Some [OF i] have i': "i < length hs" "?P (hs ! i)" by auto
    from findIndex_Some [OF j] have j': "j < length p" "?P (hs ! (p ! j))"
      by (auto simp: permute_def)
    have "p ! j < length hs" using is_perm_nth [OF assms(1) j'(1)] .
    then have "p ! j = i" using filter_one_unique [OF one _ i'(1) j'(2) i'(2)] by simp
    then show ?thesis
      using i j j' i' is_perm_length [OF assms(1)] by (simp add: col_match_def)
  qed
qed

lemma resolve_permute:
  assumes "is_perm p (length hs)" and "unambiguous hs"
  shows "cols_match p (resolve hs) (resolve (permute p hs))"
  using assms findCol_permute [OF assms(1)]
  by (simp add: cols_match_def resolve_def unambiguous_def)

lemma item_permute:
  assumes "col_match p a b" and "length c = length p"
  shows "(case b of None \<Rightarrow> None | Some j \<Rightarrow> item (permute p c) j)
         = (case a of None \<Rightarrow> None | Some i \<Rightarrow> item c i)"
  using assms by (auto simp: col_match_def item_def permute_def split: option.splits)

lemma clean_cell_permute:
  assumes "col_match p a b" and "length c = length p"
  shows "clean_cell (permute p c) b = clean_cell c a"
  using item_permute [OF assms] assms(1)
  by (auto simp: clean_cell_def col_match_def split: option.splits)

lemma make_row_permute:
  assumes "cols_match p cs cs'" and "length c = length p"
  shows "make_row cs' b (permute p c) = make_row cs b c"
proof -
  from assms(1) have m: "col_match p (roomTypeIdx cs) (roomTypeIdx cs')"
    "col_match p (genderIdx cs) (genderIdx cs')" "col_match p (bedIdx cs) (bedIdx cs')"
    by (auto simp: cols_match_def)
  have n: "roomTypeIdx cs' = None \<longleftrightarrow> roomTypeIdx cs = None"
    "genderIdx cs' = None \<longleftrightarrow> genderIdx cs = None"
    using m by (auto simp: col_match_def split: option.splits)
  show ?thesis
    using clean_cell_permute [OF m(1) assms(2)] clean_cell_permute [OF m(2) assms(2)]
      item_permute [OF m(3) assms(2)] n
    by (simp add: make_row_def)
qed

lemma lines_loop_permute:
  assumes "cols_match p cs cs'" and "list_all2 (permuted_line p) ls ls'"
  shows "lines_loop plu cs' rs lu ls' = lines_loop plu cs rs lu ls"
  using assms(2)
proof (induction ls ls' arbitrary: rs lu rule: list_all2_induct)
  case Nil
  then show ?case by simp
next
  case (Cons l ls l' ls')
  from Cons.hyps(1) have len: "length (cells_of l) = length p"
    and c: "cells_of l' = permute p (cells_of l)"
    by (auto simp: permuted_line_def)
  from assms(1) have mb: "col_match p (buildingIdx cs) (buildingIdx cs')"
    and mu: "col_match p (updatedIdx cs) (updatedIdx cs')"
    by (auto simp: cols_match_def)
  have b: "clean_cell (cells_of l') (buildingIdx cs') = clean_cell (cells_of l) (buildingIdx cs)"
    unfolding c by (rule clean_cell_permute [OF mb len])
  have u: "(case updatedIdx cs' of None \<Rightarrow> None | Some u \<Rightarrow> item (cells_of l') u)
           = (case updatedIdx cs of None \<Rightarrow> None | Some u \<Rightarrow> item (cells_of l) u)"
    unfolding c by (rule item_permute [OF mu len])
  have r: "make_row cs' x (cells_of l') = make_row cs x (cells_of l)" for x
    unfolding c by (rule make_row_permute [OF assms(1) len])
  show ?case
    by (simp add: b u r Cons.IH Let_def split: option.splits)
qed

lemma str_split_Cons: "\<exists>l ls. str_split c s = l # ls"
  using split_acc_nonempty [of c "[]" s] by (cases "split_acc c [] s") (simp_all add: str_split_def)

lemma col_match_None: "col_match p a b \<Longrightarrow> (b = None) = (a = None)"
  by (cases a; cases b) (simp_all add: col_match_def)

text \<open>
  C9 (counterexample). The headers \<open>Bed Type\<close> and \<open>Beds Available\<close> both hold
  the keyword \<open>bed\<close>, and the leftmost one is taken as the bed-count column.
  Swapping the two columns, in the header and in the data line alike, changes the
  parsed row: its \<open>bedSpaces\<close> is \<open>0\<close> before the swap and \<open>10\<close> after it.
\<close>

theorem column_order_counterexample:
  "permuted_text [0, 2, 1] bed_type_example bed_type_swapped
   \<and> fst (parseCSV_fetch bed_type_example) =
       [\<lparr> building = ''Hedrick'', roomType = ''Triple'', gender = ''All'', bedSpaces = 0 \<rparr>]
   \<and> fst (parseCSV_fetch bed_type_swapped) =
       [\<lparr> building = ''Hedrick'', roomType = ''Triple'', gender = ''All'', bedSpaces = 10 \<rparr>]"
  by code_simp

text \<open>
  C9 (amended). When, for each of the five roles, the first keyword of the role that
  occurs in a header occurs in one header only, and every data line has one cell for
  each header, permuting the columns of the header and of every data line in the same
  way leaves the result of the parser, rows and timestamp, unchanged.
\<close>

theorem column_order_independent:
  assumes "permuted_text p text text'"
    and "unambiguous (headers_of (hd (str_split (CHR 0x0A) (trim text))))"
  shows "parseCSV plu text' = parseCSV plu text"
proof -
  let ?ls = "str_split (CHR 0x0A) (trim text)"
  let ?ls' = "str_split (CHR 0x0A) (trim text')"
  let ?cs = "resolve (headers_of (hd ?ls))"
  let ?cs' = "resolve (headers_of (hd ?ls'))"
  from assms(1) have perm: "is_perm p (length (headers_of (hd ?ls)))"
    and hs: "headers_of (hd ?ls') = permute p (headers_of (hd ?ls))"
    and all2: "list_all2 (permuted_line p) (tl ?ls) (tl ?ls')"
    unfolding permuted_text_def Let_def by blast+
  obtain l ls where ls: "?ls = l # ls" using str_split_Cons by blast
  obtain l' ls' where ls': "?ls' = l' # ls'" using str_split_Cons by blast
  have "length ls = length ls'" using all2 unfolding ls ls' by (simp add: list_all2_lengthD)
  then have len: "length ?ls' = length ?ls" unfolding ls ls' by simp
  have m: "cols_match p ?cs ?cs'"
    unfolding hs by (rule resolve_permute [OF perm assms(2)])
  have nb: "(buildingIdx ?cs' = None) = (buildingIdx ?cs = None)"
    using m by (intro col_match_None [of p]) (simp add: cols_match_def)
  have nd: "(bedIdx ?cs' = None) = (bedIdx ?cs = None)"
    using m by (intro col_match_None [of p]) (simp add: cols_match_def)
  have loop: "lines_loop plu ?cs' [] None (tl ?ls') = lines_loop plu ?cs [] None (tl ?ls)"
    by (rule lines_loop_permute [OF m all2])
  show ?thesis
    unfolding parseCSV_def Let_def len nb nd loop ..
qed

theorem column_order_independent_witness:
  "permuted_text [1, 2, 0] blank_building_example gender_first_example
   \<and> unambiguous (headers_of (hd (str_split (CHR 0x0A) (trim blank_building_example))))
   \<and> parseCSV parseLastUpdated_fetch gender_first_example
       = parseCSV parseLastUpdated_fetch blank_building_example
   \<and> fst (parseCSV parseLastUpdated_fetch gender_first_example) =
       [\<lparr> building = ''Hedrick'', roomType = ''Unknown'', gender = ''Male'', bedSpaces = 5 \<rparr>]"
proof -
  have a: "permuted_text [1, 2, 0] blank_building_example gender_first_example" by code_simp
  have b: "unambiguous (headers_of (hd (str_split (CHR 0x0A) (trim blank_building_example))))"
    by code_simp
  have c: "fst (parseCSV parseLastUpdated_fetch gender_first_example) =
       [\<lparr> building = ''Hedrick'', roomType = ''Unknown'', gender = ''Male'', bedSpaces = 5 \<rparr>]"
    by code_simp
  show ?thesis
    using a b c column_order_independent [OF a b, of parseLastUpdated_fetch] by simp
qed


end
